theory Spec2Isabelle
  imports
    Complex_Main
    "HOL-Library.Multiset"
    "HOL-Library.Char_ord"
    "HOL-Library.List_Lexorder"
begin

section \<open>Numbers\<close>

text \<open>
  The scoring core of \<^verbatim>\<open>app.py\<close> computes on numpy/pandas floats. A float is modelled as
  an exact real number or the undefined value NaN (a JSON \<^verbatim>\<open>null\<close> of a fetched column
  becomes NaN in the data frame). Arithmetic is exact on numbers and propagates NaN, as
  numpy's does. Binary rounding error, overflow and infinities are outside the model.
\<close>

datatype npfloat = NaN | Num real

text \<open>\<^verbatim>\<open>pd.isna\<close>\<close>

definition isna :: "npfloat \<Rightarrow> bool" where
  "isna x = (x = NaN)"

fun np_add :: "npfloat \<Rightarrow> npfloat \<Rightarrow> npfloat" where
  "np_add (Num a) (Num b) = Num (a + b)"
| "np_add _ _ = NaN"

fun np_sub :: "npfloat \<Rightarrow> npfloat \<Rightarrow> npfloat" where
  "np_sub (Num a) (Num b) = Num (a - b)"
| "np_sub _ _ = NaN"

fun np_mul :: "npfloat \<Rightarrow> npfloat \<Rightarrow> npfloat" where
  "np_mul (Num a) (Num b) = Num (a * b)"
| "np_mul _ _ = NaN"

text \<open>
  numpy answers a division by zero with an infinity or NaN and a warning; the model has no
  infinities and answers NaN. Every division of the scoring core is behind a guard that
  excludes a zero divisor.
\<close>

fun np_div :: "npfloat \<Rightarrow> npfloat \<Rightarrow> npfloat" where
  "np_div (Num a) (Num b) = (if b = 0 then NaN else Num (a / b))"
| "np_div _ _ = NaN"

fun np_abs :: "npfloat \<Rightarrow> npfloat" where
  "np_abs (Num a) = Num \<bar>a\<bar>"
| "np_abs NaN = NaN"

text \<open>\<^verbatim>\<open>np.maximum\<close> propagates NaN.\<close>

fun np_maximum :: "npfloat \<Rightarrow> npfloat \<Rightarrow> npfloat" where
  "np_maximum (Num a) (Num b) = Num (max a b)"
| "np_maximum _ _ = NaN"

text \<open>The built-in \<^verbatim>\<open>sum\<close>: a left fold starting at 0.\<close>

definition py_sum :: "npfloat list \<Rightarrow> npfloat" where
  "py_sum xs = foldl np_add (Num 0) xs"

text \<open>\<^verbatim>\<open>np.mean\<close> of a list: the sum divided by the number of elements.\<close>

definition np_mean :: "npfloat list \<Rightarrow> npfloat" where
  "np_mean xs = np_div (py_sum xs) (Num (real (length xs)))"

text \<open>
  Rounding to 2 decimals (\<^verbatim>\<open>round(x, 2)\<close>, \<^verbatim>\<open>DataFrame.round(2)\<close>): to the nearest
  hundredth, a tie going to the even one; NaN stays NaN.
\<close>

definition round_half_even :: "real \<Rightarrow> int" where
  "round_half_even x =
     (let f = \<lfloor>x\<rfloor>; d = x - of_int f
      in if d < 1 / 2 then f
         else if 1 / 2 < d then f + 1
         else if even f then f else f + 1)"

definition round2 :: "real \<Rightarrow> real" where
  "round2 x = of_int (round_half_even (x * 100)) / 100"

fun np_round2 :: "npfloat \<Rightarrow> npfloat" where
  "np_round2 (Num a) = Num (round2 a)"
| "np_round2 NaN = NaN"

section \<open>The distance-to-match transform\<close>

text \<open>
  \<^verbatim>\<open>
  def calculate_tv_match_vectorized(candidate_scores, baseline_mean, baseline_std):
      if pd.isna(baseline_mean) or pd.isna(baseline_std) or baseline_std == 0:
          return np.zeros_like(candidate_scores, dtype=float)
      distance = np.abs(candidate_scores - baseline_mean) / baseline_std * 10
      return np.maximum(0, 100 - distance)
  \<close>
  The candidate scores are an array, modelled as a list; the arithmetic is elementwise.
\<close>

definition calculate_tv_match_vectorized ::
  "npfloat list \<Rightarrow> npfloat \<Rightarrow> npfloat \<Rightarrow> npfloat list" where
  "calculate_tv_match_vectorized candidate_scores baseline_mean baseline_std =
     (if isna baseline_mean \<or> isna baseline_std \<or> baseline_std = Num 0
      then map (\<lambda>_. Num 0) candidate_scores
      else
        let distance =
              map (\<lambda>c. np_mul (np_div (np_abs (np_sub c baseline_mean)) baseline_std) (Num 10))
                candidate_scores
        in map (\<lambda>d. np_maximum (Num 0) (np_sub (Num 100) d)) distance)"

section \<open>The fetched tables\<close>

text \<open>
  The three tables the core reads through the Supabase client, as the lists of rows a query
  returns. A query \<^verbatim>\<open>.eq(column, x)\<close> or \<^verbatim>\<open>.in_(column, xs)\<close> is a filter of the list.
  The client handle \<^verbatim>\<open>supabase\<close> is \<^verbatim>\<open>None\<close> when no connection was configured.
\<close>

record performance_row =
  perf_employee_id :: string
  perf_year :: int
  perf_rating :: int

record competency_row =
  comp_employee_id :: string
  pillar_code :: string
  score :: npfloat
  comp_year :: int

record psych_row =
  psych_employee_id :: string
  pauli :: npfloat
  gtq :: npfloat
  iq :: npfloat

record database =
  performance_yearly :: "performance_row list"
  competencies_yearly :: "competency_row list"
  profiles_psych :: "psych_row list"

text \<open>
  What a function reports when it gives up: the builder then returns \<^verbatim>\<open>None\<close>, the scorer
  an empty data frame. \<open>CaughtException\<close> is the generic handler
  \<^verbatim>\<open>except Exception as e: st.error(...)\<close> with the text of the exception;
  \<open>TooFewBenchmarks\<close> is the warning of \<^verbatim>\<open>main\<close> when fewer than two benchmark employees
  are selected.
\<close>

datatype failure =
    NotConnected
  | NoCompetencyData
  | NoEmployeesFound
  | CaughtException string
  | TooFewBenchmarks

section \<open>Pandas statistics\<close>

text \<open>\<^verbatim>\<open>Series.mean\<close> and \<^verbatim>\<open>Series.std\<close> skip NaN; \<open>std\<close> is the sample standard
  deviation (\<open>ddof = 1\<close>), NaN on fewer than two values.\<close>

fun dropna :: "npfloat list \<Rightarrow> real list" where
  "dropna [] = []"
| "dropna (NaN # xs) = dropna xs"
| "dropna (Num a # xs) = a # dropna xs"

definition series_mean :: "npfloat list \<Rightarrow> npfloat" where
  "series_mean xs =
     (let ys = dropna xs
      in if ys = [] then NaN else Num (sum_list ys / real (length ys)))"

definition series_std :: "npfloat list \<Rightarrow> npfloat" where
  "series_std xs =
     (let ys = dropna xs; n = length ys
      in if n < 2 then NaN
         else
           let m = sum_list ys / real n
           in Num (sqrt (sum_list (map (\<lambda>y. (y - m)\<^sup>2) ys) / real (n - 1))))"

text \<open>\<^verbatim>\<open>groupby('pillar_code')['score']\<close>: one group per pillar code, the keys sorted.\<close>

definition groupby_pillar_code :: "competency_row list \<Rightarrow> (string \<times> npfloat list) list" where
  "groupby_pillar_code comp_df =
     map (\<lambda>p. (p, map score [c \<leftarrow> comp_df. pillar_code c = p]))
       (sort (remdups (map pillar_code comp_df)))"

section \<open>The baseline builder\<close>

text \<open>
  A baseline frame has one row per index label with the columns \<open>mean\<close> and \<open>std\<close>; the
  labels of a frame are distinct.
\<close>

type_synonym stats_frame = "(string \<times> npfloat \<times> npfloat) list"

record baseline =
  competencies :: stats_frame
  psychometric :: stats_frame

text \<open>
  \<^verbatim>\<open>
  def compute_baseline_from_benchmarks(selected_ids):
      if not supabase: return None
      comp_df = <competencies_yearly: year = 2025, employee_id in selected_ids>
      if comp_df.empty:
          st.error("No competency data"); return None
      baseline_comp = comp_df.groupby('pillar_code')['score'].agg(['mean', 'std']).round(2)
      psych_df = <profiles_psych: employee_id in selected_ids>
      if not psych_df.empty:
          baseline_psych = pd.DataFrame({
              'mean': [psych_df['pauli'].mean(), psych_df['gtq'].mean(), psych_df['iq'].mean()],
              'std': [psych_df['pauli'].std(), psych_df['gtq'].std(), psych_df['iq'].std()]
          }, index=['PAULI', 'GTQ', 'IQ']).round(2)
      else:
          baseline_psych = pd.DataFrame({'mean': [0, 0, 0], 'std': [1, 1, 1]},
                                        index=['PAULI', 'GTQ', 'IQ'])
      return {'competencies': baseline_comp, 'psychometric': baseline_psych}
  \<close>
\<close>

definition compute_baseline_from_benchmarks ::
  "database option \<Rightarrow> string list \<Rightarrow> failure + baseline" where
  "compute_baseline_from_benchmarks supabase selected_ids =
     (case supabase of
        None \<Rightarrow> Inl NotConnected
      | Some db \<Rightarrow>
          let comp_df =
                [c \<leftarrow> competencies_yearly db.
                   comp_year c = 2025 \<and> comp_employee_id c \<in> set selected_ids]
          in if comp_df = [] then Inl NoCompetencyData
             else
               let baseline_comp =
                     map (\<lambda>(p, scores).
                            (p, np_round2 (series_mean scores), np_round2 (series_std scores)))
                       (groupby_pillar_code comp_df);
                   psych_df =
                     [r \<leftarrow> profiles_psych db. psych_employee_id r \<in> set selected_ids];
                   baseline_psych =
                     (if psych_df \<noteq> [] then
                        [(''PAULI'', np_round2 (series_mean (map pauli psych_df)),
                                     np_round2 (series_std (map pauli psych_df))),
                         (''GTQ'', np_round2 (series_mean (map gtq psych_df)),
                                   np_round2 (series_std (map gtq psych_df))),
                         (''IQ'', np_round2 (series_mean (map iq psych_df)),
                                  np_round2 (series_std (map iq psych_df)))]
                      else
                        [(''PAULI'', Num 0, Num 1), (''GTQ'', Num 0, Num 1),
                         (''IQ'', Num 0, Num 1)])
               in Inr \<lparr>competencies = baseline_comp, psychometric = baseline_psych\<rparr>)"

section \<open>The match scorer\<close>

record match_result =
  employee_id :: string
  competency_score :: npfloat
  psychometric_score :: npfloat
  behavioral_score :: npfloat
  contextual_score :: npfloat
  final_match_score :: npfloat

text \<open>The keys of the dictionary \<^verbatim>\<open>weights\<close>, which are also the columns of a
  psychometric row; \<^verbatim>\<open>var.upper()\<close> is the label of the baseline row.\<close>

datatype psych_var = Pauli | Gtq | Iq

fun column :: "psych_var \<Rightarrow> psych_row \<Rightarrow> npfloat" where
  "column Pauli r = pauli r"
| "column Gtq r = gtq r"
| "column Iq r = iq r"

fun upper :: "psych_var \<Rightarrow> string" where
  "upper Pauli = ''PAULI''"
| "upper Gtq = ''GTQ''"
| "upper Iq = ''IQ''"

definition weights :: "(psych_var \<times> real) list" where
  "weights = [(Pauli, 0.60), (Gtq, 0.28), (Iq, 0.12)]"

text \<open>
  The loop over the pillars of the baseline:
  \<^verbatim>\<open>
  comp_scores = []
  for pillar in baseline['competencies'].index:
      pillar_data = emp_comp[emp_comp['pillar_code'] == pillar]
      if not pillar_data.empty:
          candidate_score = pillar_data['score'].values[0]
          baseline_mean = baseline['competencies'].loc[pillar, 'mean']
          baseline_std = baseline['competencies'].loc[pillar, 'std']
          match = calculate_tv_match_vectorized(
              np.array([candidate_score]), baseline_mean, baseline_std)[0]
          comp_scores.append(match)
  \<close>
  \<open>take 1\<close> is the element \<^verbatim>\<open>[0]\<close> of the one-element result.
\<close>

fun comp_scores_loop :: "stats_frame \<Rightarrow> competency_row list \<Rightarrow> npfloat list" where
  "comp_scores_loop [] emp_comp = []"
| "comp_scores_loop ((pillar, baseline_mean, baseline_std) # rest) emp_comp =
     (case [c \<leftarrow> emp_comp. pillar_code c = pillar] of
        [] \<Rightarrow> comp_scores_loop rest emp_comp
      | pillar_data # _ \<Rightarrow>
          let candidate_score = score pillar_data;
              match = take 1 (calculate_tv_match_vectorized [candidate_score]
                                baseline_mean baseline_std)
          in match @ comp_scores_loop rest emp_comp)"

text \<open>
  The loop over the psychometric weights:
  \<^verbatim>\<open>
  psych_scores = []
  for var, weight in weights.items():
      if var in emp_psych and var.upper() in baseline['psychometric'].index:
          val = emp_psych[var]
          baseline_mean = baseline['psychometric'].loc[var.upper(), 'mean']
          baseline_std = baseline['psychometric'].loc[var.upper(), 'std']
          if not pd.isna(val):
              match = calculate_tv_match_vectorized(
                  np.array([val]), baseline_mean, baseline_std)[0]
              psych_scores.append(match * weight)
  \<close>
  A fetched psychometric row has the three columns, so \<^verbatim>\<open>var in emp_psych\<close> holds.
\<close>

fun psych_scores_loop ::
  "(psych_var \<times> real) list \<Rightarrow> psych_row \<Rightarrow> stats_frame \<Rightarrow> npfloat list" where
  "psych_scores_loop [] emp_psych baseline_psych = []"
| "psych_scores_loop ((var, weight) # rest) emp_psych baseline_psych =
     (case map_of baseline_psych (upper var) of
        None \<Rightarrow> psych_scores_loop rest emp_psych baseline_psych
      | Some (baseline_mean, baseline_std) \<Rightarrow>
          let val = column var emp_psych
          in if \<not> isna val then
               map (\<lambda>match. np_mul match (Num weight))
                 (take 1 (calculate_tv_match_vectorized [val] baseline_mean baseline_std))
               @ psych_scores_loop rest emp_psych baseline_psych
             else psych_scores_loop rest emp_psych baseline_psych)"

text \<open>
  The body of the loop over the roster, for one employee:
  \<^verbatim>\<open>
  emp_comp = comp_df[comp_df['employee_id'] == emp_id]
  <comp_scores loop>
  comp_score = round(np.mean(comp_scores), 2) if comp_scores else 0
  if not psych_df.empty:
      emp_psych = psych_df[psych_df['employee_id'] == emp_id]
      if not emp_psych.empty:
          emp_psych = emp_psych.iloc[0]
          <psych_scores loop>
          psych_score = round(sum(psych_scores), 2) if psych_scores else 0
      else: psych_score = 0
  else: psych_score = 0
  behav_score = 75
  context_score = 75
  final_score = (comp_score * 0.50 + psych_score * 0.25
                 + behav_score * 0.20 + context_score * 0.05)
  results.append({..., 'final_match_score': round(final_score, 2)})
  \<close>
\<close>

definition score_employee ::
  "baseline \<Rightarrow> competency_row list \<Rightarrow> psych_row list \<Rightarrow> string \<Rightarrow> match_result" where
  "score_employee baseline comp_df psych_df emp_id =
     (let emp_comp = [c \<leftarrow> comp_df. comp_employee_id c = emp_id];
          comp_scores = comp_scores_loop (competencies baseline) emp_comp;
          comp_score =
            (if comp_scores \<noteq> [] then np_round2 (np_mean comp_scores) else Num 0);
          psych_score =
            (if psych_df \<noteq> [] then
               (case [r \<leftarrow> psych_df. psych_employee_id r = emp_id] of
                  [] \<Rightarrow> Num 0
                | emp_psych # _ \<Rightarrow>
                    let psych_scores =
                          psych_scores_loop weights emp_psych (psychometric baseline)
                    in if psych_scores \<noteq> [] then np_round2 (py_sum psych_scores)
                       else Num 0)
             else Num 0);
          behav_score = Num 75;
          context_score = Num 75;
          final_score =
            np_add
              (np_add
                 (np_add (np_mul comp_score (Num 0.50)) (np_mul psych_score (Num 0.25)))
                 (np_mul behav_score (Num 0.20)))
              (np_mul context_score (Num 0.05))
      in \<lparr>employee_id = emp_id,
          competency_score = comp_score,
          psychometric_score = psych_score,
          behavioral_score = behav_score,
          contextual_score = context_score,
          final_match_score = np_round2 final_score\<rparr>)"

text \<open>
  \<^verbatim>\<open>pd.DataFrame(results).sort_values('final_match_score', ascending=False)\<close> is a call
  into pandas. The routine \<^verbatim>\<open>sort_values\<close> is not part of the repository: it is a parameter
  of the scorer, which hands it the sort column and the direction as the source does. The
  properties of the scorer below use one fact about it: it returns the rows it was given,
  in some order.
\<close>

type_synonym sorter =
  "(match_result \<Rightarrow> npfloat) \<Rightarrow> bool \<Rightarrow> match_result list \<Rightarrow> match_result list"

definition returns_given_rows :: "sorter \<Rightarrow> bool" where
  "returns_given_rows sort_values =
     (\<forall>by_column ascending rows. mset (sort_values by_column ascending rows) = mset rows)"

text \<open>
  \<^verbatim>\<open>
  def compute_match_scores_optimized(baseline, year=2025):
      try:
          if not supabase: return pd.DataFrame()
          all_emp_ids = <performance_yearly: employee_id where year = year>
          if not all_emp_ids:
              st.error("No employees found"); return pd.DataFrame()
          comp_df = pd.DataFrame(<competencies_yearly: year = year>)
          psych_df = pd.DataFrame(<profiles_psych>)
          results = []
          for idx, emp_id in enumerate(all_emp_ids):
              emp_comp = comp_df[comp_df['employee_id'] == emp_id]
              ...
          return pd.DataFrame(results).sort_values('final_match_score', ascending=False)
      except Exception as e:
          st.error(f"Error: {e}"); return pd.DataFrame()
  \<close>
  A query that returns no row gives \<^verbatim>\<open>pd.DataFrame([])\<close>, a frame without columns. For the
  psychometric frame the loop asks \<^verbatim>\<open>psych_df.empty\<close> first; for the competency frame it
  does not, and \<^verbatim>\<open>comp_df['employee_id']\<close> raises \<^verbatim>\<open>KeyError('employee_id')\<close> in the first
  iteration, which the handler catches.
\<close>

definition compute_match_scores_optimized ::
  "sorter \<Rightarrow> baseline \<Rightarrow> int \<Rightarrow> database option \<Rightarrow> failure + match_result list" where
  "compute_match_scores_optimized sort_values baseline year supabase =
     (case supabase of
        None \<Rightarrow> Inl NotConnected
      | Some db \<Rightarrow>
          let all_emp_ids =
                map perf_employee_id [p \<leftarrow> performance_yearly db. perf_year p = year]
          in if all_emp_ids = [] then Inl NoEmployeesFound
             else
               let comp_df = [c \<leftarrow> competencies_yearly db. comp_year c = year];
                   psych_df = profiles_psych db
               in if comp_df = [] then Inl (CaughtException ''employee_id'')
                  else Inr (sort_values final_match_score False
                              (map (score_employee baseline comp_df psych_df) all_emp_ids)))"

text \<open>The data frame the caller receives: empty after a failure.\<close>

fun returned_frame :: "failure + match_result list \<Rightarrow> match_result list" where
  "returned_frame (Inl _) = []"
| "returned_frame (Inr rows) = rows"

text \<open>
  The analysis of \<^verbatim>\<open>main\<close>, the only caller of the builder and the scorer:
  \<^verbatim>\<open>
  if run_analysis and len(selected_ids) >= 2:
      baseline = compute_baseline_from_benchmarks(selected_ids)
      if baseline is None:
          return
      ...
      match_scores = compute_match_scores_optimized(baseline)
      if match_scores.empty:
          return
      ...
  elif run_analysis:
      st.warning("Select at least 2 benchmarks")
  \<close>
  The scorer runs with its default year 2025, on the tables the builder has just read.
\<close>

definition main_analysis ::
  "sorter \<Rightarrow> database option \<Rightarrow> string list \<Rightarrow> failure + match_result list" where
  "main_analysis sort_values supabase selected_ids =
     (if 2 \<le> length selected_ids then
        (case compute_baseline_from_benchmarks supabase selected_ids of
           Inl f \<Rightarrow> Inl f
         | Inr baseline \<Rightarrow> compute_match_scores_optimized sort_values baseline 2025 supabase)
      else Inl TooFewBenchmarks)"

text \<open>
  A sorting routine to run the scorer on concrete data: the rows with a defined value in
  the requested direction, then the rows with an undefined value (the default
  \<^verbatim>\<open>na_position='last'\<close>). It keeps rows with equal values in their order, which the
  default \<^verbatim>\<open>kind='quicksort'\<close> does not promise; no property below rests on the order of
  rows with equal values.
\<close>

fun num_of :: "npfloat \<Rightarrow> real" where
  "num_of (Num a) = a"
| "num_of NaN = 0"

definition sort_values_stable :: sorter where
  "sort_values_stable by_column ascending rows =
     sort_key (\<lambda>r. if ascending then num_of (by_column r) else - num_of (by_column r))
       [r \<leftarrow> rows. \<not> isna (by_column r)]
     @ [r \<leftarrow> rows. isna (by_column r)]"

section \<open>Notions of the specification\<close>

text \<open>The mean and the sample standard deviation (divisor \<open>n - 1\<close>) of a list of numbers.\<close>

definition sample_mean :: "real list \<Rightarrow> real" where
  "sample_mean xs = sum_list xs / real (length xs)"

definition sample_std :: "real list \<Rightarrow> real" where
  "sample_std xs =
     sqrt ((\<Sum>x \<leftarrow> xs. (x - sample_mean xs)\<^sup>2) / (real (length xs) - 1))"

text \<open>The scores of the benchmark employees for one pillar, in the year the builder reads.\<close>

definition benchmark_scores :: "database \<Rightarrow> string list \<Rightarrow> string \<Rightarrow> npfloat list" where
  "benchmark_scores db selected_ids p =
     map score
       [c \<leftarrow> competencies_yearly db.
          comp_year c = 2025 \<and> comp_employee_id c \<in> set selected_ids \<and> pillar_code c = p]"

text \<open>The transform on one candidate value (section 4.2 of the specification).\<close>

definition match_value :: "npfloat \<Rightarrow> npfloat \<Rightarrow> npfloat \<Rightarrow> npfloat" where
  "match_value v \<mu> \<sigma> =
     (if isna \<mu> \<or> isna \<sigma> \<or> \<sigma> = Num 0 then Num 0
      else np_maximum (Num 0)
             (np_sub (Num 100) (np_mul (np_div (np_abs (np_sub v \<mu>)) \<sigma>) (Num 10))))"

text \<open>
  The employee's score for a pillar, if the employee has one: the score of the employee's
  record for the pillar. An employee without a record for the pillar, or whose record
  holds no score (null), has no score for the pillar.
\<close>

definition employee_pillar_score :: "competency_row list \<Rightarrow> string \<Rightarrow> string \<Rightarrow> npfloat option" where
  "employee_pillar_score comp_df emp_id p =
     (case [c \<leftarrow> comp_df. comp_employee_id c = emp_id \<and> pillar_code c = p] of
        [] \<Rightarrow> None
      | c # _ \<Rightarrow> (if isna (score c) then None else Some (score c)))"

text \<open>
  The competency sub-score in the words of the specification: the match values of exactly
  those baseline pillars for which the employee has a score, their unweighted mean rounded
  to 2 decimals, and 0 when there is none.
\<close>

definition pillar_matches :: "baseline \<Rightarrow> competency_row list \<Rightarrow> string \<Rightarrow> npfloat list" where
  "pillar_matches b comp_df emp_id =
     List.map_filter
       (\<lambda>(p, \<mu>, \<sigma>). map_option (\<lambda>v. match_value v \<mu> \<sigma>) (employee_pillar_score comp_df emp_id p))
       (competencies b)"

definition spec_competency_score :: "baseline \<Rightarrow> competency_row list \<Rightarrow> string \<Rightarrow> npfloat" where
  "spec_competency_score b comp_df emp_id =
     (let ms = pillar_matches b comp_df emp_id
      in if ms = [] then Num 0 else np_round2 (np_mean ms))"

text \<open>
  The psychometric sub-score in the words of the specification: each dimension whose value
  is defined contributes its match value times its fixed weight, a dimension whose value is
  NaN contributes nothing, and the weights are not renormalised. The match value of a
  numeric candidate is always a number.
\<close>

definition weighted_match :: "stats_frame \<Rightarrow> psych_row \<Rightarrow> psych_var \<Rightarrow> real \<Rightarrow> real" where
  "weighted_match bp q var w =
     (case column var q of
        NaN \<Rightarrow> 0
      | Num v \<Rightarrow>
          (case map_of bp (upper var) of
             None \<Rightarrow> 0
           | Some (\<mu>, \<sigma>) \<Rightarrow> num_of (match_value (Num v) \<mu> \<sigma>) * w))"

definition spec_psychometric_score :: "stats_frame \<Rightarrow> psych_row \<Rightarrow> npfloat" where
  "spec_psychometric_score bp q =
     Num (round2 (weighted_match bp q Pauli 0.60 + weighted_match bp q Gtq 0.28
                  + weighted_match bp q Iq 0.12))"

text \<open>
  The comparison \<open>\<ge>\<close> of two floats, false when either side is NaN, and the ranking
  property of the specification: every row's final score is at least the next row's.
\<close>

fun np_ge :: "npfloat \<Rightarrow> npfloat \<Rightarrow> bool" where
  "np_ge (Num a) (Num b) = (b \<le> a)"
| "np_ge _ _ = False"

fun each_at_least_next :: "npfloat list \<Rightarrow> bool" where
  "each_at_least_next (a # b # rest) = (np_ge a b \<and> each_at_least_next (b # rest))"
| "each_at_least_next _ = True"

text \<open>
  The invariant of a baseline row (section 3 of the specification): the standard deviation
  is undefined or not negative. The builder takes a square root and rounds it.
\<close>

definition std_defined_nonneg :: "npfloat \<Rightarrow> bool" where
  "std_defined_nonneg \<sigma> = (case \<sigma> of NaN \<Rightarrow> True | Num s \<Rightarrow> 0 \<le> s)"

section \<open>Example data\<close>

text \<open>Two benchmark employees with the scores 80 and 90 for pillar P1, and no
  psychometric record.\<close>

definition example_db :: database where
  "example_db =
     \<lparr>performance_yearly =
        [\<lparr>perf_employee_id = ''e1'', perf_year = 2025, perf_rating = 5\<rparr>,
         \<lparr>perf_employee_id = ''e2'', perf_year = 2025, perf_rating = 5\<rparr>],
      competencies_yearly =
        [\<lparr>comp_employee_id = ''e1'', pillar_code = ''P1'', score = Num 80, comp_year = 2025\<rparr>,
         \<lparr>comp_employee_id = ''e2'', pillar_code = ''P1'', score = Num 90, comp_year = 2025\<rparr>],
      profiles_psych = []\<rparr>"

definition example_baseline :: baseline where
  "example_baseline =
     \<lparr>competencies = [(''P1'', Num 85, Num 7.07)],
      psychometric = [(''PAULI'', Num 0, Num 1), (''GTQ'', Num 0, Num 1), (''IQ'', Num 0, Num 1)]\<rparr>"

text \<open>
  A company whose tables hold the two benchmark employees \<open>e1\<close> and \<open>e2\<close> of the example
  and three more employees: \<open>e3\<close> sits on the baseline mean of P1, has a score for a pillar
  P2 that is not in the baseline, and has a psychometric record with an undefined GTQ;
  \<open>e4\<close> is in the roster and in neither table; \<open>e6\<close> has a record for P1 whose score is
  null.
\<close>

definition company_db :: database where
  "company_db =
     \<lparr>performance_yearly =
        [\<lparr>perf_employee_id = ''e1'', perf_year = 2025, perf_rating = 5\<rparr>,
         \<lparr>perf_employee_id = ''e2'', perf_year = 2025, perf_rating = 5\<rparr>,
         \<lparr>perf_employee_id = ''e3'', perf_year = 2025, perf_rating = 4\<rparr>,
         \<lparr>perf_employee_id = ''e4'', perf_year = 2025, perf_rating = 3\<rparr>,
         \<lparr>perf_employee_id = ''e6'', perf_year = 2025, perf_rating = 3\<rparr>],
      competencies_yearly =
        [\<lparr>comp_employee_id = ''e1'', pillar_code = ''P1'', score = Num 80, comp_year = 2025\<rparr>,
         \<lparr>comp_employee_id = ''e2'', pillar_code = ''P1'', score = Num 90, comp_year = 2025\<rparr>,
         \<lparr>comp_employee_id = ''e3'', pillar_code = ''P1'', score = Num 85, comp_year = 2025\<rparr>,
         \<lparr>comp_employee_id = ''e3'', pillar_code = ''P2'', score = Num 70, comp_year = 2025\<rparr>,
         \<lparr>comp_employee_id = ''e6'', pillar_code = ''P1'', score = NaN, comp_year = 2025\<rparr>],
      profiles_psych =
        [\<lparr>psych_employee_id = ''e3'', pauli = Num 2, gtq = NaN, iq = Num 5\<rparr>]\<rparr>"

text \<open>Employee \<open>e6\<close> has a competency row for P1 whose score is null.\<close>

definition null_score_db :: database where
  "null_score_db =
     \<lparr>performance_yearly =
        [\<lparr>perf_employee_id = ''e3'', perf_year = 2025, perf_rating = 4\<rparr>,
         \<lparr>perf_employee_id = ''e6'', perf_year = 2025, perf_rating = 3\<rparr>],
      competencies_yearly =
        [\<lparr>comp_employee_id = ''e3'', pillar_code = ''P1'', score = Num 85, comp_year = 2025\<rparr>,
         \<lparr>comp_employee_id = ''e6'', pillar_code = ''P1'', score = NaN, comp_year = 2025\<rparr>],
      profiles_psych = []\<rparr>"

definition null_score_ranking :: "match_result list" where
  "null_score_ranking =
     [\<lparr>employee_id = ''e3'', competency_score = Num 100, psychometric_score = Num 0,
       behavioral_score = Num 75, contextual_score = Num 75, final_match_score = Num 68.75\<rparr>,
      \<lparr>employee_id = ''e6'', competency_score = NaN, psychometric_score = Num 0,
       behavioral_score = Num 75, contextual_score = Num 75, final_match_score = NaN\<rparr>]"

section \<open>Properties of the transform\<close>

lemma tv_match_numbers:
  "\<sigma> \<noteq> 0 \<Longrightarrow>
   calculate_tv_match_vectorized (map Num vs) (Num \<mu>) (Num \<sigma>) =
     map (\<lambda>v. Num (max 0 (100 - \<bar>v - \<mu>\<bar> / \<sigma> * 10))) vs"
  by (simp add: calculate_tv_match_vectorized_def isna_def Let_def comp_def)

lemma tv_match_guarded:
  "isna \<mu> \<or> isna \<sigma> \<or> \<sigma> = Num 0 \<Longrightarrow>
   calculate_tv_match_vectorized vs \<mu> \<sigma> = map (\<lambda>_. Num 0) vs"
  by (simp add: calculate_tv_match_vectorized_def)

lemma decay_range:
  fixes v \<mu> \<sigma> :: real
  assumes "0 < \<sigma>"
  shows "0 \<le> max 0 (100 - \<bar>v - \<mu>\<bar> / \<sigma> * 10)" and "max 0 (100 - \<bar>v - \<mu>\<bar> / \<sigma> * 10) \<le> 100"
proof -
  show "0 \<le> max 0 (100 - \<bar>v - \<mu>\<bar> / \<sigma> * 10)" by simp
  define d where "d = \<bar>v - \<mu>\<bar> / \<sigma> * 10"
  have "0 \<le> d" unfolding d_def using assms by simp
  then have "max 0 (100 - d) \<le> 100" by linarith
  then show "max 0 (100 - \<bar>v - \<mu>\<bar> / \<sigma> * 10) \<le> 100" unfolding d_def .
qed

text \<open>
  C1. For every numeric candidate value \<open>v\<close>, baseline mean \<open>\<mu>\<close> and baseline standard
  deviation \<open>\<sigma>\<close> that are defined with \<open>\<sigma> > 0\<close>, the transform returns
  \<open>max(0, 100 - |v - \<mu>| / \<sigma> * 10)\<close> (elementwise over the candidate array); the result lies
  in \<open>[0, 100]\<close>, and it is exactly 100 at \<open>v = \<mu>\<close>.
\<close>

theorem tv_match_formula_and_range:
  assumes "0 < \<sigma>"
  shows "calculate_tv_match_vectorized (map Num vs) (Num \<mu>) (Num \<sigma>) =
           map (\<lambda>v. Num (max 0 (100 - \<bar>v - \<mu>\<bar> / \<sigma> * 10))) vs
         \<and> (\<forall>m \<in> set (calculate_tv_match_vectorized (map Num vs) (Num \<mu>) (Num \<sigma>)).
              \<exists>x. m = Num x \<and> 0 \<le> x \<and> x \<le> 100)
         \<and> calculate_tv_match_vectorized [Num \<mu>] (Num \<mu>) (Num \<sigma>) = [Num 100]"
proof -
  have nz: "\<sigma> \<noteq> 0" using assms by simp
  have eq: "calculate_tv_match_vectorized (map Num vs) (Num \<mu>) (Num \<sigma>) =
              map (\<lambda>v. Num (max 0 (100 - \<bar>v - \<mu>\<bar> / \<sigma> * 10))) vs"
    by (rule tv_match_numbers [OF nz])
  have rng: "\<forall>m \<in> set (calculate_tv_match_vectorized (map Num vs) (Num \<mu>) (Num \<sigma>)).
               \<exists>x. m = Num x \<and> 0 \<le> x \<and> x \<le> 100"
    unfolding eq using decay_range [OF assms] by auto
  have "calculate_tv_match_vectorized (map Num [\<mu>]) (Num \<mu>) (Num \<sigma>) =
          map (\<lambda>v. Num (max 0 (100 - \<bar>v - \<mu>\<bar> / \<sigma> * 10))) [\<mu>]"
    by (rule tv_match_numbers [OF nz])
  then have top: "calculate_tv_match_vectorized [Num \<mu>] (Num \<mu>) (Num \<sigma>) = [Num 100]"
    by simp
  from eq rng top show ?thesis by blast
qed

theorem tv_match_formula_and_range_witness:
  "calculate_tv_match_vectorized (map Num [120, 85, 1000]) (Num 85) (Num 7) =
     [Num 50, Num 100, Num 0]
   \<and> calculate_tv_match_vectorized [Num 85] (Num 85) (Num 7) = [Num 100]"
  using tv_match_formula_and_range [of 7 "[120, 85, 1000]" 85] by simp

text \<open>
  C2. For every candidate array (NaN entries included), if the baseline mean or the baseline
  standard deviation is NaN, or the standard deviation is 0, the transform returns the
  number 0 for every candidate: no NaN is propagated. The division is reached only when
  the guard is false, and then the divisor is a number other than 0.
\<close>

theorem tv_match_undefined_baseline:
  "(isna \<mu> \<or> isna \<sigma> \<or> \<sigma> = Num 0 \<longrightarrow>
      calculate_tv_match_vectorized vs \<mu> \<sigma> = replicate (length vs) (Num 0))
   \<and> (\<not> (isna \<mu> \<or> isna \<sigma> \<or> \<sigma> = Num 0) \<longrightarrow> (\<exists>s. \<sigma> = Num s \<and> s \<noteq> 0))"
proof -
  have "isna \<mu> \<or> isna \<sigma> \<or> \<sigma> = Num 0 \<Longrightarrow>
          calculate_tv_match_vectorized vs \<mu> \<sigma> = replicate (length vs) (Num 0)"
    by (simp add: tv_match_guarded map_replicate_const)
  moreover have "\<not> (isna \<mu> \<or> isna \<sigma> \<or> \<sigma> = Num 0) \<Longrightarrow> \<exists>s. \<sigma> = Num s \<and> s \<noteq> 0"
    by (cases \<sigma>) (auto simp: isna_def)
  ultimately show ?thesis by blast
qed

theorem tv_match_undefined_baseline_witness:
  "calculate_tv_match_vectorized [Num 90, NaN] (Num 85) (Num 0) = [Num 0, Num 0]
   \<and> calculate_tv_match_vectorized [Num 90, NaN] NaN (Num 7) = [Num 0, Num 0]
   \<and> calculate_tv_match_vectorized [Num 90, NaN] (Num 85) NaN = [Num 0, Num 0]"
  using tv_match_undefined_baseline [of "Num 85" "Num 0" "[Num 90, NaN]"]
    tv_match_undefined_baseline [of NaN "Num 7" "[Num 90, NaN]"]
    tv_match_undefined_baseline [of "Num 85" NaN "[Num 90, NaN]"]
  by (simp add: isna_def)

section \<open>Rounding\<close>

lemma round2_between:
  assumes "of_int k / 100 \<le> x" and "x < (of_int k + 1 / 2) / 100"
  shows "round2 x = of_int k / 100"
proof -
  have lo: "of_int k \<le> x * 100" using assms(1) by simp
  have hi: "x * 100 < of_int k + 1 / 2" using assms(2) by simp
  have fl: "\<lfloor>x * 100\<rfloor> = k"
    by (rule floor_unique) (use lo hi in linarith)+
  have "x * 100 - of_int k < 1 / 2" using hi by linarith
  then have "round_half_even (x * 100) = k"
    by (simp add: round_half_even_def Let_def fl)
  then show ?thesis by (simp add: round2_def)
qed

lemma round2_hundredth: "round2 (of_int k / 100) = of_int k / 100"
  by (rule round2_between) simp_all

lemma sqrt_50_bounds: "7.07 \<le> sqrt 50" "sqrt 50 < 7.075"
proof -
  show "7.07 \<le> sqrt 50"
    by (rule real_le_rsqrt) (simp add: power2_eq_square)
  show "sqrt 50 < 7.075"
    by (rule real_less_lsqrt) (simp_all add: power2_eq_square)
qed

lemma round2_sqrt_50: "round2 (sqrt 50) = 7.07"
  using round2_between [of 707 "sqrt 50"] sqrt_50_bounds by simp

lemma round2_85: "round2 85 = 85"
  using round2_hundredth [of 8500] by simp

lemma round2_up:
  assumes "(of_int k - 1 / 2) / 100 < x" and "x \<le> of_int k / 100"
  shows "round2 x = of_int k / 100"
proof -
  have lo: "of_int k - 1 / 2 < x * 100" using assms(1) by simp
  have hi: "x * 100 \<le> of_int k" using assms(2) by simp
  show ?thesis
  proof (cases "x * 100 = of_int k")
    case True
    then have x: "x = of_int k / 100" by simp
    show ?thesis unfolding x by (rule round2_hundredth)
  next
    case False
    with hi have hi': "x * 100 < of_int k" by simp
    have fl: "\<lfloor>x * 100\<rfloor> = k - 1"
      by (rule floor_unique) (use lo hi' in simp_all)
    have "1 / 2 < x * 100 - of_int (k - 1)" using lo by simp
    then have "round_half_even (x * 100) = k"
      by (simp add: round_half_even_def Let_def fl)
    then show ?thesis by (simp add: round2_def)
  qed
qed

lemma round2_0: "round2 0 = 0"
  using round2_hundredth [of 0] by simp

lemma round2_values:
  "round2 100 = 100" "round2 0 = 0" "round2 54 = 54" "round2 (329 / 4) = 329 / 4"
  "round2 (75 / 4) = 75 / 4" "round2 44 = 44" "round2 (5100 / 101) = 101 / 2"
  "round2 (275 / 4) = 275 / 4"
  using round2_hundredth [of 10000] round2_hundredth [of 0] round2_hundredth [of 5400]
    round2_hundredth [of 8225] round2_hundredth [of 1875] round2_hundredth [of 4400]
    round2_up [of 5050 "5100 / 101"] round2_hundredth [of 6875]
  by simp_all

section \<open>Properties of the baseline builder\<close>

lemma dropna_Num [simp]: "dropna (map Num xs) = xs"
  by (induction xs) simp_all

lemma series_mean_numbers:
  "xs \<noteq> [] \<Longrightarrow> series_mean (map Num xs) = Num (sample_mean xs)"
  by (simp add: series_mean_def sample_mean_def)

lemma series_std_numbers:
  "2 \<le> length xs \<Longrightarrow> series_std (map Num xs) = Num (sample_std xs)"
  by (simp add: series_std_def sample_std_def sample_mean_def Let_def of_nat_diff)

lemma groupby_lookup:
  assumes "p \<in> pillar_code ` set comp_df"
  shows "map_of (groupby_pillar_code comp_df) p =
           Some (map score [c \<leftarrow> comp_df. pillar_code c = p])"
  using assms by (simp add: groupby_pillar_code_def map_of_map_restrict)

lemma stats_lookup:
  assumes "map_of groups p = Some scores"
  shows "map_of (map (\<lambda>(p, scores). (p, f scores, g scores)) groups) p
           = Some (f scores, g scores)"
  using assms by (induction groups) (auto split: if_splits)

lemma example_baseline_built:
  "compute_baseline_from_benchmarks (Some example_db) [''e1'', ''e2''] = Inr example_baseline"
  by (simp add: compute_baseline_from_benchmarks_def example_db_def example_baseline_def Let_def
      groupby_pillar_code_def series_mean_def series_std_def round2_sqrt_50 round2_85)

lemma sample_80_90: "sample_mean [80, 90] = 85" "sample_std [80, 90] = sqrt 50"
  by (simp_all add: sample_mean_def sample_std_def)

text \<open>
  C3. Whenever the benchmark employees have a score for a pillar, the builder returns a
  baseline, and the baseline has a row for that pillar holding the mean and the standard
  deviation of the benchmark employees' scores for it, each rounded to 2 decimals. On
  numbers these are the arithmetic mean and the sample standard deviation (divisor
  \<open>n - 1\<close>). In particular, benchmark scores \<open>[80, 90]\<close> for a pillar are stored as mean 85
  and standard deviation 7.07.
\<close>

theorem baseline_competency_statistics:
  assumes "benchmark_scores db selected_ids p \<noteq> []"
  shows "\<exists>b. compute_baseline_from_benchmarks (Some db) selected_ids = Inr b
         \<and> map_of (competencies b) p =
             Some (np_round2 (series_mean (benchmark_scores db selected_ids p)),
                   np_round2 (series_std (benchmark_scores db selected_ids p)))
         \<and> (\<forall>xs. benchmark_scores db selected_ids p = map Num xs \<and> 2 \<le> length xs \<longrightarrow>
               map_of (competencies b) p =
                 Some (Num (round2 (sample_mean xs)), Num (round2 (sample_std xs))))
         \<and> (benchmark_scores db selected_ids p = [Num 80, Num 90] \<longrightarrow>
               map_of (competencies b) p = Some (Num 85, Num 7.07))"
proof -
  define comp_df where "comp_df =
    [c \<leftarrow> competencies_yearly db. comp_year c = 2025 \<and> comp_employee_id c \<in> set selected_ids]"
  have sc: "benchmark_scores db selected_ids p = map score [c \<leftarrow> comp_df. pillar_code c = p]"
    by (simp add: benchmark_scores_def comp_df_def conj_commute conj_left_commute cong: conj_cong)
  have in_df: "p \<in> pillar_code ` set comp_df"
    using assms unfolding sc by (auto simp: filter_empty_conv)
  then have ne: "comp_df \<noteq> []" by auto
  obtain b where built: "compute_baseline_from_benchmarks (Some db) selected_ids = Inr b"
    and b: "competencies b =
             map (\<lambda>(p, scores). (p, np_round2 (series_mean scores), np_round2 (series_std scores)))
               (groupby_pillar_code comp_df)"
    using ne by (simp add: compute_baseline_from_benchmarks_def Let_def comp_df_def)
  from in_df
  have "map_of (groupby_pillar_code comp_df) p = Some (benchmark_scores db selected_ids p)"
    unfolding sc by (rule groupby_lookup)
  then have look: "map_of (competencies b) p =
           Some (np_round2 (series_mean (benchmark_scores db selected_ids p)),
                 np_round2 (series_std (benchmark_scores db selected_ids p)))"
    unfolding b by (rule stats_lookup)
  have numbers: "map_of (competencies b) p =
                   Some (Num (round2 (sample_mean xs)), Num (round2 (sample_std xs)))"
    if h: "benchmark_scores db selected_ids p = map Num xs \<and> 2 \<le> length xs" for xs
  proof -
    from h have "xs \<noteq> []" by auto
    with h look show ?thesis
      by (simp add: series_mean_numbers series_std_numbers)
  qed
  have example: "map_of (competencies b) p = Some (Num 85, Num 7.07)"
    if h: "benchmark_scores db selected_ids p = [Num 80, Num 90]"
    using numbers [of "[80, 90]"] h by (simp add: sample_80_90 round2_sqrt_50 round2_85)
  from built look numbers example show ?thesis by blast
qed

theorem baseline_competency_statistics_witness:
  "compute_baseline_from_benchmarks (Some example_db) [''e1'', ''e2''] = Inr example_baseline
   \<and> benchmark_scores example_db [''e1'', ''e2''] ''P1'' = [Num 80, Num 90]
   \<and> map_of (competencies example_baseline) ''P1'' = Some (Num 85, Num 7.07)"
proof -
  have sc: "benchmark_scores example_db [''e1'', ''e2''] ''P1'' = [Num 80, Num 90]"
    by (simp add: benchmark_scores_def example_db_def)
  then have ne: "benchmark_scores example_db [''e1'', ''e2''] ''P1'' \<noteq> []" by simp
  from baseline_competency_statistics [OF ne] obtain b where
    built: "compute_baseline_from_benchmarks (Some example_db) [''e1'', ''e2''] = Inr b"
    and ex: "benchmark_scores example_db [''e1'', ''e2''] ''P1'' = [Num 80, Num 90] \<longrightarrow>
               map_of (competencies b) ''P1'' = Some (Num 85, Num 7.07)"
    by blast
  from built have b: "b = example_baseline" by (simp add: example_baseline_built)
  from ex sc have "map_of (competencies b) ''P1'' = Some (Num 85, Num 7.07)" by blast
  with sc example_baseline_built show ?thesis unfolding b by (intro conjI)
qed

text \<open>
  C7. If the benchmark set has competency data (so that a baseline is built at all) and no
  psychometric record exists for any benchmark employee, the builder returns a baseline
  whose PAULI, GTQ and IQ rows are mean 0 and standard deviation 1. On each of these
  rows the transform then divides by 1 and gives \<open>max(0, 100 - |v| * 10)\<close> for every
  numeric candidate value \<open>v\<close>.
\<close>

theorem neutral_psychometric_baseline:
  assumes "[c \<leftarrow> competencies_yearly db.
              comp_year c = 2025 \<and> comp_employee_id c \<in> set selected_ids] \<noteq> []"
    and "\<forall>r \<in> set (profiles_psych db). psych_employee_id r \<notin> set selected_ids"
  shows "\<exists>b. compute_baseline_from_benchmarks (Some db) selected_ids = Inr b
           \<and> psychometric b =
               [(''PAULI'', Num 0, Num 1), (''GTQ'', Num 0, Num 1), (''IQ'', Num 0, Num 1)]
           \<and> (\<forall>var v. \<exists>\<mu> \<sigma>. map_of (psychometric b) (upper var) = Some (\<mu>, \<sigma>)
                 \<and> \<sigma> \<noteq> Num 0
                 \<and> calculate_tv_match_vectorized [Num v] \<mu> \<sigma>
                     = [Num (max 0 (100 - \<bar>v\<bar> * 10))])"
proof -
  have no_psych: "[r \<leftarrow> profiles_psych db. psych_employee_id r \<in> set selected_ids] = []"
    using assms(2) by (simp add: filter_empty_conv)
  obtain b where b: "compute_baseline_from_benchmarks (Some db) selected_ids = Inr b"
    and psy: "psychometric b =
               [(''PAULI'', Num 0, Num 1), (''GTQ'', Num 0, Num 1), (''IQ'', Num 0, Num 1)]"
    using assms(1) no_psych
    by (simp add: compute_baseline_from_benchmarks_def Let_def)
  have tv: "calculate_tv_match_vectorized [Num v] (Num 0) (Num 1)
              = [Num (max 0 (100 - \<bar>v\<bar> * 10))]" for v
    using tv_match_numbers [of 1 "[v]" 0] by simp
  have "\<exists>\<mu> \<sigma>. map_of (psychometric b) (upper var) = Some (\<mu>, \<sigma>) \<and> \<sigma> \<noteq> Num 0
          \<and> calculate_tv_match_vectorized [Num v] \<mu> \<sigma> = [Num (max 0 (100 - \<bar>v\<bar> * 10))]"
    for var v
    by (cases var) (simp_all add: psy tv)
  with b psy show ?thesis by blast
qed

theorem neutral_psychometric_baseline_witness:
  "psychometric example_baseline =
     [(''PAULI'', Num 0, Num 1), (''GTQ'', Num 0, Num 1), (''IQ'', Num 0, Num 1)]
   \<and> calculate_tv_match_vectorized [Num 4] (Num 0) (Num 1) = [Num 60]"
proof -
  have a: "[c \<leftarrow> competencies_yearly example_db.
              comp_year c = 2025 \<and> comp_employee_id c \<in> set [''e1'', ''e2'']] \<noteq> []"
    by (simp add: example_db_def)
  have n: "\<forall>r \<in> set (profiles_psych example_db). psych_employee_id r \<notin> set [''e1'', ''e2'']"
    by (simp add: example_db_def)
  from neutral_psychometric_baseline [OF a n] obtain b where
    b: "compute_baseline_from_benchmarks (Some example_db) [''e1'', ''e2''] = Inr b"
    and psy: "psychometric b =
               [(''PAULI'', Num 0, Num 1), (''GTQ'', Num 0, Num 1), (''IQ'', Num 0, Num 1)]"
    and tv: "\<forall>var v. \<exists>\<mu> \<sigma>. map_of (psychometric b) (upper var) = Some (\<mu>, \<sigma>)
                 \<and> \<sigma> \<noteq> Num 0
                 \<and> calculate_tv_match_vectorized [Num v] \<mu> \<sigma>
                     = [Num (max 0 (100 - \<bar>v\<bar> * 10))]"
    by blast
  from b have eq: "b = example_baseline" by (simp add: example_baseline_built)
  from tv obtain \<mu> \<sigma> where "map_of (psychometric b) (upper Pauli) = Some (\<mu>, \<sigma>)"
    and "calculate_tv_match_vectorized [Num 4] \<mu> \<sigma> = [Num (max 0 (100 - \<bar>4\<bar> * 10))]"
    by blast
  then have "calculate_tv_match_vectorized [Num 4] (Num 0) (Num 1) = [Num 60]"
    by (simp add: psy)
  with psy eq show ?thesis by simp
qed

section \<open>Properties of the match scorer\<close>

lemma mset_split_isna:
  "mset [r \<leftarrow> rows. \<not> isna (k r)] + mset [r \<leftarrow> rows. isna (k r)] = mset rows"
  by (induction rows) auto

lemma sort_values_stable_returns_given_rows: "returns_given_rows sort_values_stable"
  using mset_split_isna by (simp add: returns_given_rows_def sort_values_stable_def)

lemma sort_values_stable_undefined_last:
  assumes "\<forall>r \<in> set nums. \<not> isna (k r)" and "isna (k x)"
  shows "sort_values_stable k False (nums @ [x]) = sort_key (\<lambda>r. - num_of (k r)) nums @ [x]"
  using assms by (simp add: sort_values_stable_def filter_id_conv filter_empty_conv)

lemma tv_match_single:
  "calculate_tv_match_vectorized [v] \<mu> \<sigma> = [match_value v \<mu> \<sigma>]"
  by (simp add: calculate_tv_match_vectorized_def match_value_def)

lemma match_value_number: "\<exists>x. match_value (Num v) \<mu> \<sigma> = Num x"
  by (cases \<mu>; cases \<sigma>) (simp_all add: match_value_def isna_def)

lemma py_sum_from: "foldl np_add (Num a) (map Num xs) = Num (a + sum_list xs)"
  by (induction xs arbitrary: a) (simp_all add: add.assoc)

lemma np_mean_numbers: "xs \<noteq> [] \<Longrightarrow> np_mean (map Num xs) = Num (sample_mean xs)"
  by (simp add: np_mean_def py_sum_def py_sum_from sample_mean_def)

lemma filter_filter_employee:
  "[c \<leftarrow> [c \<leftarrow> comp_df. comp_employee_id c = e]. pillar_code c = p]
     = [c \<leftarrow> comp_df. comp_employee_id c = e \<and> pillar_code c = p]"
  by (simp add: conj_commute)

lemma comp_scores_loop_no_record: "comp_scores_loop frame [] = []"
  by (induction frame) auto

text \<open>
  On an employee whose competency scores are all defined, the competency loop computes the
  competency sub-score of the specification.
\<close>

lemma comp_scores_loop_defined:
  assumes "\<forall>c \<in> set comp_df. comp_employee_id c = e \<longrightarrow> \<not> isna (score c)"
  shows "comp_scores_loop frame [c \<leftarrow> comp_df. comp_employee_id c = e] =
     List.map_filter
       (\<lambda>(p, \<mu>, \<sigma>). map_option (\<lambda>v. match_value v \<mu> \<sigma>) (employee_pillar_score comp_df e p))
       frame"
proof (induction frame)
  case Nil
  show ?case by (simp add: map_filter_simps)
next
  case (Cons row frame)
  obtain p \<mu> \<sigma> where row: "row = (p, \<mu>, \<sigma>)" by (cases row)
  show ?case
  proof (cases "[c \<leftarrow> comp_df. comp_employee_id c = e \<and> pillar_code c = p]")
    case Nil
    then show ?thesis
      by (simp add: row Cons.IH filter_filter_employee employee_pillar_score_def map_filter_simps)
  next
    case (Cons c cs)
    then have "c \<in> set [c \<leftarrow> comp_df. comp_employee_id c = e \<and> pillar_code c = p]" by simp
    then have "c \<in> set comp_df" "comp_employee_id c = e" by simp_all
    with assms have "\<not> isna (score c)" by blast
    with Cons show ?thesis
      by (simp add: row Cons.IH filter_filter_employee employee_pillar_score_def
          map_filter_simps tv_match_single)
  qed
qed

lemma competency_score_defined:
  assumes "\<forall>c \<in> set comp_df. comp_employee_id c = e \<longrightarrow> \<not> isna (score c)"
  shows "competency_score (score_employee b comp_df psych_df e) = spec_competency_score b comp_df e"
  by (simp add: score_employee_def Let_def spec_competency_score_def pillar_matches_def
      comp_scores_loop_defined [OF assms])

lemma employee_id_score_employee [simp]:
  "employee_id (score_employee b comp_df psych_df e) = e"
  by (simp add: score_employee_def Let_def)

lemma psych_loop_sum:
  "foldl np_add (Num a) (psych_scores_loop ws q bp) =
     Num (a + (\<Sum>(var, w) \<leftarrow> ws. weighted_match bp q var w))"
proof (induction ws arbitrary: a)
  case Nil
  show ?case by simp
next
  case (Cons vw ws)
  obtain var w where vw: "vw = (var, w)" by (cases vw)
  show ?case
  proof (cases "map_of bp (upper var)")
    case None
    then show ?thesis
      by (cases "column var q") (simp_all add: vw Cons.IH weighted_match_def)
  next
    case (Some ms)
    obtain \<mu> \<sigma> where ms: "ms = (\<mu>, \<sigma>)" by (cases ms)
    show ?thesis
    proof (cases "column var q")
      case NaN
      then show ?thesis by (simp add: vw Some ms Cons.IH weighted_match_def isna_def)
    next
      case (Num v)
      obtain x where x: "match_value (Num v) \<mu> \<sigma> = Num x"
        using match_value_number by blast
      show ?thesis
        by (simp add: vw Some ms Num Cons.IH weighted_match_def isna_def tv_match_single x
            add.assoc)
    qed
  qed
qed

lemma psych_loop_empty:
  "psych_scores_loop ws q bp = [] \<Longrightarrow> (\<Sum>(var, w) \<leftarrow> ws. weighted_match bp q var w) = 0"
proof (induction ws)
  case Nil
  show ?case by simp
next
  case (Cons vw ws)
  obtain var w where vw: "vw = (var, w)" by (cases vw)
  from Cons.prems have skipped: "weighted_match bp q var w = 0"
    and rest: "psych_scores_loop ws q bp = []"
    by (auto simp: vw weighted_match_def isna_def tv_match_single Let_def
        split: option.splits npfloat.splits if_splits)
  with Cons.IH show ?case by (simp add: vw)
qed

lemma psychometric_score_spec:
  "psychometric_score (score_employee b comp_df psych_df e) =
     (case [q \<leftarrow> psych_df. psych_employee_id q = e] of
        [] \<Rightarrow> Num 0
      | q # _ \<Rightarrow> spec_psychometric_score (psychometric b) q)"
proof (cases "[q \<leftarrow> psych_df. psych_employee_id q = e]")
  case Nil
  then show ?thesis by (simp add: score_employee_def Let_def)
next
  case (Cons q qs)
  then have ne: "psych_df \<noteq> []" by auto
  have total: "(\<Sum>(var, w) \<leftarrow> weights. weighted_match (psychometric b) q var w) =
          weighted_match (psychometric b) q Pauli 0.60 + weighted_match (psychometric b) q Gtq 0.28
          + weighted_match (psychometric b) q Iq 0.12"
    by (simp add: weights_def)
  have sum: "py_sum (psych_scores_loop weights q (psychometric b)) =
          Num (weighted_match (psychometric b) q Pauli 0.60 + weighted_match (psychometric b) q Gtq 0.28
          + weighted_match (psychometric b) q Iq 0.12)"
    unfolding py_sum_def psych_loop_sum total by simp
  show ?thesis
  proof (cases "psych_scores_loop weights q (psychometric b) = []")
    case True
    from psych_loop_empty [OF True] have "weighted_match (psychometric b) q Pauli 0.60
          + weighted_match (psychometric b) q Gtq 0.28
          + weighted_match (psychometric b) q Iq 0.12 = 0"
      unfolding total .
    then have "spec_psychometric_score (psychometric b) q = Num 0"
      by (simp add: spec_psychometric_score_def round2_0)
    with True show ?thesis by (simp add: score_employee_def Let_def Cons ne)
  next
    case False
    then show ?thesis
      by (simp add: score_employee_def Let_def Cons ne sum spec_psychometric_score_def)
  qed
qed

lemma score_employee_final:
  "behavioral_score (score_employee b comp_df psych_df e) = Num 75"
  "contextual_score (score_employee b comp_df psych_df e) = Num 75"
  "final_match_score (score_employee b comp_df psych_df e) =
     np_round2
       (np_add
          (np_add
             (np_add (np_mul (competency_score (score_employee b comp_df psych_df e)) (Num 0.50))
                (np_mul (psychometric_score (score_employee b comp_df psych_df e)) (Num 0.25)))
             (np_mul (behavioral_score (score_employee b comp_df psych_df e)) (Num 0.20)))
          (np_mul (contextual_score (score_employee b comp_df psych_df e)) (Num 0.05)))"
  by (simp_all add: score_employee_def Let_def)

lemma score_employee_absent:
  assumes "\<forall>c \<in> set comp_df. comp_employee_id c \<noteq> e"
    and "\<forall>q \<in> set psych_df. psych_employee_id q \<noteq> e"
  shows "competency_score (score_employee b comp_df psych_df e) = Num 0"
    and "psychometric_score (score_employee b comp_df psych_df e) = Num 0"
    and "final_match_score (score_employee b comp_df psych_df e) = Num 18.75"
proof -
  have c: "[c \<leftarrow> comp_df. comp_employee_id c = e] = []"
    using assms(1) by (simp add: filter_empty_conv)
  have q: "[q \<leftarrow> psych_df. psych_employee_id q = e] = []"
    using assms(2) by (simp add: filter_empty_conv)
  show "competency_score (score_employee b comp_df psych_df e) = Num 0"
    and "psychometric_score (score_employee b comp_df psych_df e) = Num 0"
    and "final_match_score (score_employee b comp_df psych_df e) = Num 18.75"
    by (simp_all add: score_employee_def Let_def c q comp_scores_loop_no_record round2_values)
qed

lemma scorer_success:
  assumes "[p \<leftarrow> performance_yearly db. perf_year p = year] \<noteq> []"
    and "[c \<leftarrow> competencies_yearly db. comp_year c = year] \<noteq> []"
  shows "compute_match_scores_optimized sort_values b year (Some db) =
           Inr (sort_values final_match_score False
                  (map (score_employee b [c \<leftarrow> competencies_yearly db. comp_year c = year]
                          (profiles_psych db))
                     (map perf_employee_id [p \<leftarrow> performance_yearly db. perf_year p = year])))"
  using assms by (simp add: compute_match_scores_optimized_def Let_def)

text \<open>
  When the competency frame of the year is not empty, the scorer returns a ranking with
  one row for every entry of the roster, and every row is the scored employee.
\<close>

lemma scorer_scores_roster:
  assumes "returns_given_rows sort_values"
    and "[c \<leftarrow> competencies_yearly db. comp_year c = year] \<noteq> []"
    and "e \<in> set (map perf_employee_id [p \<leftarrow> performance_yearly db. perf_year p = year])"
  shows "\<exists>rows.
           compute_match_scores_optimized sort_values b year (Some db) = Inr rows
         \<and> score_employee b [c \<leftarrow> competencies_yearly db. comp_year c = year]
             (profiles_psych db) e \<in> set rows
         \<and> (\<forall>r \<in> set rows.
               r = score_employee b [c \<leftarrow> competencies_yearly db. comp_year c = year]
                     (profiles_psych db) (employee_id r))
         \<and> mset (map employee_id rows) =
             mset (map perf_employee_id [p \<leftarrow> performance_yearly db. perf_year p = year])"
proof -
  let ?roster = "map perf_employee_id [p \<leftarrow> performance_yearly db. perf_year p = year]"
  let ?score = "score_employee b [c \<leftarrow> competencies_yearly db. comp_year c = year]
                  (profiles_psych db)"
  let ?rows = "sort_values final_match_score False (map ?score ?roster)"
  have ne: "[p \<leftarrow> performance_yearly db. perf_year p = year] \<noteq> []"
  proof
    assume "[p \<leftarrow> performance_yearly db. perf_year p = year] = []"
    with assms(3) show False by simp
  qed
  have run: "compute_match_scores_optimized sort_values b year (Some db) = Inr ?rows"
    by (rule scorer_success [OF ne assms(2)])
  have perm: "mset ?rows = mset (map ?score ?roster)"
    using assms(1) by (simp add: returns_given_rows_def)
  then have set: "set ?rows = set (map ?score ?roster)" by (rule mset_eq_setD)
  have inside: "?score e \<in> set ?rows"
    unfolding set using assms(3) by (rule imageI [of e "set ?roster" ?score, simplified set_map [symmetric]])
  have each: "\<forall>r \<in> set ?rows. r = ?score (employee_id r)"
    unfolding set by auto
  have "mset (map employee_id ?rows) = image_mset employee_id (mset (map ?score ?roster))"
    using perm by (metis mset_map)
  also have "\<dots> = mset (map employee_id (map ?score ?roster))" by (rule mset_map [symmetric])
  also have "map employee_id (map ?score ?roster) = ?roster" by (simp add: comp_def)
  finally have ids: "mset (map employee_id ?rows) = mset ?roster" .
  from run inside each ids show ?thesis by blast
qed

text \<open>
  \<^verbatim>\<open>main\<close> calls the scorer only with a baseline that the builder has just returned from the
  same tables, for the same year; then the competency frame of the scorer is not empty.
\<close>

lemma built_baseline_has_competency_rows:
  assumes "compute_baseline_from_benchmarks (Some db) selected_ids = Inr b"
  shows "[c \<leftarrow> competencies_yearly db. comp_year c = 2025] \<noteq> []"
proof
  assume empty: "[c \<leftarrow> competencies_yearly db. comp_year c = 2025] = []"
  then have "[c \<leftarrow> competencies_yearly db.
                comp_year c = 2025 \<and> comp_employee_id c \<in> set selected_ids] = []"
    by (auto simp: filter_empty_conv)
  with assms show False
    by (simp add: compute_baseline_from_benchmarks_def)
qed

lemma main_analysis_never_caught_exception:
  "main_analysis sort_values (Some db) selected_ids \<noteq> Inl (CaughtException x)"
proof (cases "compute_baseline_from_benchmarks (Some db) selected_ids")
  case (Inl f)
  then have "f = NoCompetencyData"
    by (auto simp: compute_baseline_from_benchmarks_def Let_def split: if_splits)
  with Inl show ?thesis by (simp add: main_analysis_def)
next
  case (Inr b)
  from built_baseline_has_competency_rows [OF Inr] Inr show ?thesis
    by (simp add: main_analysis_def compute_match_scores_optimized_def Let_def)
qed

text \<open>
  C9. If the performance roster of the requested year is empty, the scorer reports
  "no employees found" and the caller receives an empty data frame, whatever the baseline,
  the other tables and the sorting routine are.
\<close>

theorem empty_roster_no_employees_found:
  assumes "[p \<leftarrow> performance_yearly db. perf_year p = year] = []"
  shows "compute_match_scores_optimized sort_values baseline year (Some db) = Inl NoEmployeesFound
         \<and> returned_frame (compute_match_scores_optimized sort_values baseline year (Some db)) = []"
  using assms by (simp add: compute_match_scores_optimized_def)

theorem empty_roster_no_employees_found_witness:
  "compute_match_scores_optimized sort_values_stable example_baseline 2024 (Some example_db)
     = Inl NoEmployeesFound
   \<and> returned_frame
       (compute_match_scores_optimized sort_values_stable example_baseline 2024 (Some example_db))
     = []"
proof -
  have "[p \<leftarrow> performance_yearly example_db. perf_year p = 2024] = []"
    by (simp add: example_db_def)
  then show ?thesis by (rule empty_roster_no_employees_found)
qed

section \<open>The company example\<close>

lemma company_baseline:
  "compute_baseline_from_benchmarks (Some company_db) [''e1'', ''e2''] = Inr example_baseline"
  by (simp add: compute_baseline_from_benchmarks_def company_db_def example_baseline_def Let_def
      groupby_pillar_code_def series_mean_def series_std_def round2_sqrt_50 round2_85)

lemma company_roster:
  "map perf_employee_id [p \<leftarrow> performance_yearly company_db. perf_year p = 2025]
     = [''e1'', ''e2'', ''e3'', ''e4'', ''e6'']"
  by (simp add: company_db_def)

lemma company_competency_frame:
  "[c \<leftarrow> competencies_yearly company_db. comp_year c = 2025] = competencies_yearly company_db"
  "competencies_yearly company_db \<noteq> []"
  by (simp_all add: company_db_def)

lemma company_main:
  "main_analysis sort_values (Some company_db) [''e1'', ''e2''] =
     compute_match_scores_optimized sort_values example_baseline 2025 (Some company_db)"
  by (simp add: main_analysis_def company_baseline)

text \<open>
  C4. For every baseline and every year whose competency frame is not empty (as it is on
  every run of \<^verbatim>\<open>main\<close>), the scorer returns a ranking with a row for every employee of the
  roster, and in every row the behavioral and contextual scores are 75 and the final score
  is the competency score times 0.50 plus the psychometric score times 0.25 plus
  75 times 0.20 plus 75 times 0.05, rounded to 2 decimals. The constant terms add up to
  18.75, and the row of an employee who is in neither the competency frame nor the
  psychometric table has the final score 18.75.
\<close>

theorem final_score_weights_and_constant_terms:
  assumes "returns_given_rows sort_values"
    and "[c \<leftarrow> competencies_yearly db. comp_year c = year] \<noteq> []"
    and "e \<in> set (map perf_employee_id [p \<leftarrow> performance_yearly db. perf_year p = year])"
  shows "\<exists>rows.
           compute_match_scores_optimized sort_values b year (Some db) = Inr rows
         \<and> (\<exists>r \<in> set rows. employee_id r = e)
         \<and> (\<forall>r \<in> set rows.
               behavioral_score r = Num 75 \<and> contextual_score r = Num 75
             \<and> final_match_score r =
                 np_round2
                   (np_add
                      (np_add
                         (np_add (np_mul (competency_score r) (Num 0.50))
                            (np_mul (psychometric_score r) (Num 0.25)))
                         (np_mul (behavioral_score r) (Num 0.20)))
                      (np_mul (contextual_score r) (Num 0.05)))
             \<and> (\<forall>c p. competency_score r = Num c \<and> psychometric_score r = Num p \<longrightarrow>
                   final_match_score r =
                     Num (round2 (c * 0.50 + p * 0.25 + 75 * 0.20 + 75 * 0.05)))
             \<and> ((\<forall>c \<in> set (competencies_yearly db).
                     comp_year c = year \<longrightarrow> comp_employee_id c \<noteq> employee_id r)
                 \<and> (\<forall>q \<in> set (profiles_psych db). psych_employee_id q \<noteq> employee_id r) \<longrightarrow>
                   final_match_score r = Num 18.75))
         \<and> np_add (np_mul (Num 75) (Num 0.20)) (np_mul (Num 75) (Num 0.05)) = Num 18.75"
proof -
  let ?comp_df = "[c \<leftarrow> competencies_yearly db. comp_year c = year]"
  let ?score = "score_employee b ?comp_df (profiles_psych db)"
  from scorer_scores_roster [OF assms, of b] obtain rows where
    run: "compute_match_scores_optimized sort_values b year (Some db) = Inr rows"
    and inside: "?score e \<in> set rows"
    and each: "\<forall>r \<in> set rows. r = ?score (employee_id r)"
    by blast
  from inside have has_row: "\<exists>r \<in> set rows. employee_id r = e"
    by (rule bexI [rotated]) simp
  have row: "behavioral_score r = Num 75 \<and> contextual_score r = Num 75
             \<and> final_match_score r =
                 np_round2
                   (np_add
                      (np_add
                         (np_add (np_mul (competency_score r) (Num 0.50))
                            (np_mul (psychometric_score r) (Num 0.25)))
                         (np_mul (behavioral_score r) (Num 0.20)))
                      (np_mul (contextual_score r) (Num 0.05)))
             \<and> (\<forall>c p. competency_score r = Num c \<and> psychometric_score r = Num p \<longrightarrow>
                   final_match_score r =
                     Num (round2 (c * 0.50 + p * 0.25 + 75 * 0.20 + 75 * 0.05)))
             \<and> ((\<forall>c \<in> set (competencies_yearly db).
                     comp_year c = year \<longrightarrow> comp_employee_id c \<noteq> employee_id r)
                 \<and> (\<forall>q \<in> set (profiles_psych db). psych_employee_id q \<noteq> employee_id r) \<longrightarrow>
                   final_match_score r = Num 18.75)"
    if "r \<in> set rows" for r
  proof -
    define e' where "e' = employee_id r"
    from each that have r: "r = ?score e'" unfolding e'_def by blast
    have beh: "behavioral_score r = Num 75" and con: "contextual_score r = Num 75"
      unfolding r by (rule score_employee_final)+
    have fin: "final_match_score r =
                 np_round2
                   (np_add
                      (np_add
                         (np_add (np_mul (competency_score r) (Num 0.50))
                            (np_mul (psychometric_score r) (Num 0.25)))
                         (np_mul (behavioral_score r) (Num 0.20)))
                      (np_mul (contextual_score r) (Num 0.05)))"
      unfolding r by (rule score_employee_final)
    have num: "final_match_score r =
                 Num (round2 (c * 0.50 + p * 0.25 + 75 * 0.20 + 75 * 0.05))"
      if "competency_score r = Num c \<and> psychometric_score r = Num p" for c p
      using that by (subst fin) (simp add: beh con)
    have absent: "final_match_score r = Num 18.75"
      if a: "(\<forall>c \<in> set (competencies_yearly db).
                 comp_year c = year \<longrightarrow> comp_employee_id c \<noteq> employee_id r)
             \<and> (\<forall>q \<in> set (profiles_psych db). psych_employee_id q \<noteq> employee_id r)"
    proof -
      from a have "\<forall>c \<in> set ?comp_df. comp_employee_id c \<noteq> e'"
        and "\<forall>q \<in> set (profiles_psych db). psych_employee_id q \<noteq> e'"
        unfolding e'_def by simp_all
      then show ?thesis unfolding r by (rule score_employee_absent(3))
    qed
    from beh con fin num absent show ?thesis by blast
  qed
  have const: "np_add (np_mul (Num 75) (Num 0.20)) (np_mul (Num 75) (Num 0.05)) = Num 18.75"
    by simp
  from run has_row row const show ?thesis by blast
qed

theorem final_score_weights_and_constant_terms_witness:
  "\<exists>rows.
     compute_match_scores_optimized sort_values_stable example_baseline 2025 (Some company_db)
       = Inr rows
   \<and> (\<exists>r \<in> set rows. employee_id r = ''e4'' \<and> behavioral_score r = Num 75
          \<and> contextual_score r = Num 75 \<and> final_match_score r = Num 18.75)"
proof -
  have c: "[c \<leftarrow> competencies_yearly company_db. comp_year c = 2025] \<noteq> []"
    by (simp add: company_competency_frame)
  have e: "''e4'' \<in> set (map perf_employee_id
                            [p \<leftarrow> performance_yearly company_db. perf_year p = 2025])"
    unfolding company_roster by simp
  from final_score_weights_and_constant_terms
         [OF sort_values_stable_returns_given_rows c e, of example_baseline]
  obtain rows r where
    run: "compute_match_scores_optimized sort_values_stable example_baseline 2025
            (Some company_db) = Inr rows"
    and r: "r \<in> set rows" "employee_id r = ''e4''"
    and all: "\<forall>r \<in> set rows.
               behavioral_score r = Num 75 \<and> contextual_score r = Num 75
             \<and> ((\<forall>c \<in> set (competencies_yearly company_db).
                     comp_year c = 2025 \<longrightarrow> comp_employee_id c \<noteq> employee_id r)
                 \<and> (\<forall>q \<in> set (profiles_psych company_db). psych_employee_id q \<noteq> employee_id r) \<longrightarrow>
                   final_match_score r = Num 18.75)"
    by blast
  have "\<forall>c \<in> set (competencies_yearly company_db).
          comp_year c = 2025 \<longrightarrow> comp_employee_id c \<noteq> ''e4''"
    and "\<forall>q \<in> set (profiles_psych company_db). psych_employee_id q \<noteq> ''e4''"
    by (simp_all add: company_db_def)
  with all r have "behavioral_score r = Num 75 \<and> contextual_score r = Num 75
                   \<and> final_match_score r = Num 18.75"
    by metis
  with run r show ?thesis by blast
qed

text \<open>
  C6. For every baseline and every year whose competency frame is not empty, the scorer
  returns a ranking with a row for every employee of the roster, and in every row the
  psychometric score is: for an employee with a psychometric record, the sum, rounded to
  2 decimals, of the match values of pauli, gtq and iq times the fixed weights 0.60, 0.28
  and 0.12, where a dimension whose value is NaN adds nothing and the other weights stay
  as they are; for an employee without a psychometric record, 0.
\<close>

theorem psychometric_score_weighted_sum:
  assumes "returns_given_rows sort_values"
    and "[c \<leftarrow> competencies_yearly db. comp_year c = year] \<noteq> []"
    and "e \<in> set (map perf_employee_id [p \<leftarrow> performance_yearly db. perf_year p = year])"
  shows "\<exists>rows.
           compute_match_scores_optimized sort_values b year (Some db) = Inr rows
         \<and> (\<exists>r \<in> set rows. employee_id r = e)
         \<and> (\<forall>r \<in> set rows.
               psychometric_score r =
                 (case [q \<leftarrow> profiles_psych db. psych_employee_id q = employee_id r] of
                    [] \<Rightarrow> Num 0
                  | q # _ \<Rightarrow>
                      Num (round2 (weighted_match (psychometric b) q Pauli 0.60
                                   + weighted_match (psychometric b) q Gtq 0.28
                                   + weighted_match (psychometric b) q Iq 0.12))))"
proof -
  let ?comp_df = "[c \<leftarrow> competencies_yearly db. comp_year c = year]"
  let ?score = "score_employee b ?comp_df (profiles_psych db)"
  from scorer_scores_roster [OF assms, of b] obtain rows where
    run: "compute_match_scores_optimized sort_values b year (Some db) = Inr rows"
    and inside: "?score e \<in> set rows"
    and each: "\<forall>r \<in> set rows. r = ?score (employee_id r)"
    by blast
  from inside have has_row: "\<exists>r \<in> set rows. employee_id r = e"
    by (rule bexI [rotated]) simp
  have row: "psychometric_score r =
                 (case [q \<leftarrow> profiles_psych db. psych_employee_id q = employee_id r] of
                    [] \<Rightarrow> Num 0
                  | q # _ \<Rightarrow>
                      Num (round2 (weighted_match (psychometric b) q Pauli 0.60
                                   + weighted_match (psychometric b) q Gtq 0.28
                                   + weighted_match (psychometric b) q Iq 0.12)))"
    if "r \<in> set rows" for r
  proof -
    from each that have r: "r = ?score (employee_id r)" by blast
    show ?thesis
      by (subst r) (simp add: psychometric_score_spec spec_psychometric_score_def split: list.split)
  qed
  from run has_row row show ?thesis by blast
qed

theorem psychometric_score_weighted_sum_witness:
  "weighted_match (psychometric example_baseline) (hd (profiles_psych company_db)) Pauli 0.60 = 48
   \<and> weighted_match (psychometric example_baseline) (hd (profiles_psych company_db)) Gtq 0.28 = 0
   \<and> weighted_match (psychometric example_baseline) (hd (profiles_psych company_db)) Iq 0.12 = 6
   \<and> (\<exists>rows.
        compute_match_scores_optimized sort_values_stable example_baseline 2025 (Some company_db)
          = Inr rows
      \<and> (\<exists>r \<in> set rows. employee_id r = ''e3'' \<and> psychometric_score r = Num 54)
      \<and> (\<exists>r \<in> set rows. employee_id r = ''e4'' \<and> psychometric_score r = Num 0))"
proof -
  have c: "[c \<leftarrow> competencies_yearly company_db. comp_year c = 2025] \<noteq> []"
    by (simp add: company_competency_frame)
  have e3: "''e3'' \<in> set (map perf_employee_id
                            [p \<leftarrow> performance_yearly company_db. perf_year p = 2025])"
    and e4: "''e4'' \<in> set (map perf_employee_id
                            [p \<leftarrow> performance_yearly company_db. perf_year p = 2025])"
    unfolding company_roster by simp_all
  have w: "weighted_match (psychometric example_baseline) (hd (profiles_psych company_db)) Pauli 0.60 = 48"
    "weighted_match (psychometric example_baseline) (hd (profiles_psych company_db)) Gtq 0.28 = 0"
    "weighted_match (psychometric example_baseline) (hd (profiles_psych company_db)) Iq 0.12 = 6"
    by (simp_all add: weighted_match_def example_baseline_def company_db_def match_value_def
        isna_def)
  have q3: "[q \<leftarrow> profiles_psych company_db. psych_employee_id q = ''e3'']
              = [hd (profiles_psych company_db)]"
    and q4: "[q \<leftarrow> profiles_psych company_db. psych_employee_id q = ''e4''] = []"
    by (simp_all add: company_db_def)
  from psychometric_score_weighted_sum
         [OF sort_values_stable_returns_given_rows c e3, of example_baseline]
  obtain rows r3 where
    run: "compute_match_scores_optimized sort_values_stable example_baseline 2025
            (Some company_db) = Inr rows"
    and r3: "r3 \<in> set rows" "employee_id r3 = ''e3''"
    and all: "\<forall>r \<in> set rows.
               psychometric_score r =
                 (case [q \<leftarrow> profiles_psych company_db. psych_employee_id q = employee_id r] of
                    [] \<Rightarrow> Num 0
                  | q # _ \<Rightarrow>
                      Num (round2 (weighted_match (psychometric example_baseline) q Pauli 0.60
                                   + weighted_match (psychometric example_baseline) q Gtq 0.28
                                   + weighted_match (psychometric example_baseline) q Iq 0.12)))"
    by blast
  from psychometric_score_weighted_sum
         [OF sort_values_stable_returns_given_rows c e4, of example_baseline] run
  obtain r4 where r4: "r4 \<in> set rows" "employee_id r4 = ''e4''"
    by auto
  from all r3(1) have "psychometric_score r3 =
                 (case [q \<leftarrow> profiles_psych company_db. psych_employee_id q = employee_id r3] of
                    [] \<Rightarrow> Num 0
                  | q # _ \<Rightarrow>
                      Num (round2 (weighted_match (psychometric example_baseline) q Pauli 0.60
                                   + weighted_match (psychometric example_baseline) q Gtq 0.28
                                   + weighted_match (psychometric example_baseline) q Iq 0.12)))"
    by blast
  then have p3: "psychometric_score r3 = Num 54"
    unfolding r3(2) q3 list.case w by (simp add: round2_values)
  from all r4(1) have "psychometric_score r4 =
                 (case [q \<leftarrow> profiles_psych company_db. psych_employee_id q = employee_id r4] of
                    [] \<Rightarrow> Num 0
                  | q # _ \<Rightarrow>
                      Num (round2 (weighted_match (psychometric example_baseline) q Pauli 0.60
                                   + weighted_match (psychometric example_baseline) q Gtq 0.28
                                   + weighted_match (psychometric example_baseline) q Iq 0.12)))"
    by blast
  then have p4: "psychometric_score r4 = Num 0"
    unfolding r4(2) q4 list.case .
  from run r3 p3 r4 p4 w show ?thesis by blast
qed

section \<open>The range of the scores\<close>

text \<open>
  Against a baseline whose standard deviations are undefined or not negative, an employee
  whose competency scores are all defined gets sub-scores in \<open>[0, 100]\<close> and a final score
  in \<open>[18.75, 93.75]\<close>.
\<close>

lemma round_half_even_bounds:
  "\<lfloor>y\<rfloor> \<le> round_half_even y" "round_half_even y \<le> \<lceil>y\<rceil>"
proof -
  show "\<lfloor>y\<rfloor> \<le> round_half_even y"
    by (simp add: round_half_even_def Let_def)
  show "round_half_even y \<le> \<lceil>y\<rceil>"
  proof (cases "y = of_int \<lfloor>y\<rfloor>")
    case True
    then have "y - of_int \<lfloor>y\<rfloor> = 0" by simp
    then have "round_half_even y = \<lfloor>y\<rfloor>"
      by (simp add: round_half_even_def Let_def)
    then show ?thesis by (simp add: floor_le_ceiling)
  next
    case False
    then have "\<lceil>y\<rceil> = \<lfloor>y\<rfloor> + 1"
      by (metis ceiling_altdef)
    then show ?thesis by (simp add: round_half_even_def Let_def)
  qed
qed

lemma round2_lower: "of_int k / 100 \<le> x \<Longrightarrow> of_int k / 100 \<le> round2 x"
proof -
  assume "of_int k / 100 \<le> x"
  then have "of_int k \<le> x * 100" by simp
  then have "k \<le> \<lfloor>x * 100\<rfloor>" by (simp add: le_floor_iff)
  with round_half_even_bounds(1) [of "x * 100"] have "k \<le> round_half_even (x * 100)" by linarith
  then have "(of_int k :: real) \<le> of_int (round_half_even (x * 100))" by simp
  then show ?thesis by (simp add: round2_def divide_right_mono)
qed

lemma round2_upper: "x \<le> of_int k / 100 \<Longrightarrow> round2 x \<le> of_int k / 100"
proof -
  assume "x \<le> of_int k / 100"
  then have "x * 100 \<le> of_int k" by simp
  then have "\<lceil>x * 100\<rceil> \<le> k" by (simp add: ceiling_le_iff)
  with round_half_even_bounds(2) [of "x * 100"] have "round_half_even (x * 100) \<le> k" by linarith
  then have "(of_int (round_half_even (x * 100)) :: real) \<le> of_int k" by simp
  then show ?thesis by (simp add: round2_def divide_right_mono)
qed

lemma match_value_range:
  assumes "std_defined_nonneg \<sigma>"
  shows "\<exists>x. match_value (Num v) \<mu> \<sigma> = Num x \<and> 0 \<le> x \<and> x \<le> 100"
proof (cases "isna \<mu> \<or> isna \<sigma> \<or> \<sigma> = Num 0")
  case True
  then show ?thesis by (simp add: match_value_def)
next
  case False
  then obtain m s where ms: "\<mu> = Num m" "\<sigma> = Num s" "s \<noteq> 0"
    by (cases \<mu>; cases \<sigma>) (auto simp: isna_def)
  with assms have pos: "0 < s" by (simp add: std_defined_nonneg_def)
  have "match_value (Num v) \<mu> \<sigma> = Num (max 0 (100 - \<bar>v - m\<bar> / s * 10))"
    using ms by (simp add: match_value_def isna_def)
  with decay_range [OF pos, of v m] show ?thesis by blast
qed

lemma sum_list_bounds:
  fixes xs :: "real list"
  assumes "\<forall>x \<in> set xs. 0 \<le> x \<and> x \<le> c"
  shows "0 \<le> sum_list xs" and "sum_list xs \<le> c * real (length xs)"
  using assms by (induction xs) (auto simp: algebra_simps)

lemma mean_range:
  fixes xs :: "real list"
  assumes "xs \<noteq> []" and "\<forall>x \<in> set xs. 0 \<le> x \<and> x \<le> 100"
  shows "0 \<le> sum_list xs / real (length xs)" and "sum_list xs / real (length xs) \<le> 100"
proof -
  have n: "0 < real (length xs)" using assms(1) by simp
  show "0 \<le> sum_list xs / real (length xs)"
    using sum_list_bounds(1) [OF assms(2)] by simp
  have "sum_list xs \<le> 100 * real (length xs)"
    by (rule sum_list_bounds(2) [OF assms(2)])
  then show "sum_list xs / real (length xs) \<le> 100"
    using n by (simp add: pos_divide_le_eq)
qed

lemma employee_pillar_score_defined:
  assumes "employee_pillar_score comp_df e p = Some v"
  shows "\<exists>x. v = Num x"
  using assms
  by (cases v) (auto simp: employee_pillar_score_def isna_def split: list.splits if_splits)

lemma frame_matches_range:
  assumes "\<forall>row \<in> set frame. std_defined_nonneg (snd (snd row))"
  shows "\<exists>xs. List.map_filter
            (\<lambda>(p, \<mu>, \<sigma>). map_option (\<lambda>v. match_value v \<mu> \<sigma>) (employee_pillar_score comp_df e p))
            frame = map Num xs
          \<and> (\<forall>x \<in> set xs. 0 \<le> x \<and> x \<le> 100)"
  using assms
proof (induction frame)
  case Nil
  have "List.map_filter
          (\<lambda>(p, \<mu>, \<sigma>). map_option (\<lambda>v. match_value v \<mu> \<sigma>) (employee_pillar_score comp_df e p))
          [] = map Num []"
    by (simp add: map_filter_simps)
  then show ?case by force
next
  case (Cons row frame)
  obtain p \<mu> \<sigma> where row: "row = (p, \<mu>, \<sigma>)" by (cases row)
  from Cons.prems have ok: "std_defined_nonneg \<sigma>" by (simp add: row)
  from Cons obtain xs where xs: "List.map_filter
            (\<lambda>(p, \<mu>, \<sigma>). map_option (\<lambda>v. match_value v \<mu> \<sigma>) (employee_pillar_score comp_df e p))
            frame = map Num xs" and rng: "\<forall>x \<in> set xs. 0 \<le> x \<and> x \<le> 100"
    by auto
  show ?case
  proof (cases "employee_pillar_score comp_df e p")
    case None
    then show ?thesis using xs rng by (auto simp: row map_filter_simps)
  next
    case (Some v)
    from employee_pillar_score_defined [OF Some] obtain v' where v': "v = Num v'" by blast
    from match_value_range [OF ok, of v' \<mu>] obtain x where
      x: "match_value (Num v') \<mu> \<sigma> = Num x" "0 \<le> x" "x \<le> 100" by blast
    have "List.map_filter
            (\<lambda>(p, \<mu>, \<sigma>). map_option (\<lambda>v. match_value v \<mu> \<sigma>) (employee_pillar_score comp_df e p))
            (row # frame) = map Num (x # xs)"
      by (simp add: row map_filter_simps Some v' x xs)
    moreover have "\<forall>y \<in> set (x # xs). 0 \<le> y \<and> y \<le> 100" using x rng by simp
    ultimately show ?thesis by blast
  qed
qed

lemma weighted_match_range:
  assumes "\<forall>row \<in> set bp. std_defined_nonneg (snd (snd row))" and "0 \<le> w"
  shows "0 \<le> weighted_match bp q var w" and "weighted_match bp q var w \<le> 100 * w"
proof -
  have "0 \<le> weighted_match bp q var w \<and> weighted_match bp q var w \<le> 100 * w"
  proof (cases "column var q")
    case NaN
    then show ?thesis using assms(2) by (simp add: weighted_match_def)
  next
    case (Num v)
    show ?thesis
    proof (cases "map_of bp (upper var)")
      case None
      then show ?thesis using assms(2) by (simp add: weighted_match_def Num)
    next
      case (Some ms)
      obtain \<mu> \<sigma> where ms: "ms = (\<mu>, \<sigma>)" by (cases ms)
      from Some have "(upper var, \<mu>, \<sigma>) \<in> set bp" unfolding ms by (rule map_of_SomeD)
      with assms(1) have "std_defined_nonneg \<sigma>" by force
      from match_value_range [OF this, of v \<mu>] obtain x where
        x: "match_value (Num v) \<mu> \<sigma> = Num x" "0 \<le> x" "x \<le> 100" by blast
      have "weighted_match bp q var w = x * w"
        by (simp add: weighted_match_def Num Some ms x)
      moreover have "0 \<le> x * w" using x(2) assms(2) by simp
      moreover have "x * w \<le> 100 * w" using x(3) assms(2) by (rule mult_right_mono)
      ultimately show ?thesis by simp
    qed
  qed
  then show "0 \<le> weighted_match bp q var w" and "weighted_match bp q var w \<le> 100 * w"
    by simp_all
qed

lemma scores_in_range:
  assumes "\<forall>row \<in> set (competencies b). std_defined_nonneg (snd (snd row))"
    and "\<forall>row \<in> set (psychometric b). std_defined_nonneg (snd (snd row))"
    and "\<forall>c \<in> set comp_df. comp_employee_id c = e \<longrightarrow> \<not> isna (score c)"
  shows "\<exists>c p f.
           competency_score (score_employee b comp_df psych_df e) = Num c \<and> 0 \<le> c \<and> c \<le> 100
         \<and> psychometric_score (score_employee b comp_df psych_df e) = Num p \<and> 0 \<le> p \<and> p \<le> 100
         \<and> behavioral_score (score_employee b comp_df psych_df e) = Num 75
         \<and> contextual_score (score_employee b comp_df psych_df e) = Num 75
         \<and> final_match_score (score_employee b comp_df psych_df e) = Num f
         \<and> 18.75 \<le> f \<and> f \<le> 93.75"
proof -
  let ?r = "score_employee b comp_df psych_df e"
  from frame_matches_range [OF assms(1)] obtain xs where
    xs: "pillar_matches b comp_df e = map Num xs" and rng: "\<forall>x \<in> set xs. 0 \<le> x \<and> x \<le> 100"
    unfolding pillar_matches_def by blast
  note spec = competency_score_defined [OF assms(3)]
  obtain c where c: "competency_score ?r = Num c" "0 \<le> c" "c \<le> 100"
  proof (cases "xs = []")
    case True
    then have "competency_score ?r = Num 0"
      by (simp add: spec spec_competency_score_def xs)
    then show ?thesis using that by simp
  next
    case False
    then have "competency_score ?r = Num (round2 (sum_list xs / real (length xs)))"
      using np_mean_numbers [OF False]
      by (simp add: spec spec_competency_score_def xs sample_mean_def)
    moreover have "0 \<le> round2 (sum_list xs / real (length xs))"
      using round2_lower [of 0 "sum_list xs / real (length xs)"] mean_range(1) [OF False rng]
      by simp
    moreover have "round2 (sum_list xs / real (length xs)) \<le> 100"
      using round2_upper [of "sum_list xs / real (length xs)" 10000] mean_range(2) [OF False rng]
      by simp
    ultimately show ?thesis using that by blast
  qed
  obtain p where p: "psychometric_score ?r = Num p" "0 \<le> p" "p \<le> 100"
  proof (cases "[q \<leftarrow> psych_df. psych_employee_id q = e]")
    case Nil
    then have "psychometric_score ?r = Num 0" by (simp add: psychometric_score_spec)
    then show ?thesis using that by simp
  next
    case (Cons q qs)
    let ?s = "weighted_match (psychometric b) q Pauli 0.60
              + weighted_match (psychometric b) q Gtq 0.28
              + weighted_match (psychometric b) q Iq 0.12"
    have eq: "psychometric_score ?r = Num (round2 ?s)"
      by (simp add: psychometric_score_spec Cons spec_psychometric_score_def)
    have lo: "0 \<le> ?s"
      using weighted_match_range(1) [OF assms(2), of "0.60" q Pauli]
        weighted_match_range(1) [OF assms(2), of "0.28" q Gtq]
        weighted_match_range(1) [OF assms(2), of "0.12" q Iq]
      by simp
    have hi: "?s \<le> 100"
      using weighted_match_range(2) [OF assms(2), of "0.60" q Pauli]
        weighted_match_range(2) [OF assms(2), of "0.28" q Gtq]
        weighted_match_range(2) [OF assms(2), of "0.12" q Iq]
      by simp
    have "0 \<le> round2 ?s" using round2_lower [of 0 ?s] lo by simp
    moreover have "round2 ?s \<le> 100" using round2_upper [of ?s 10000] hi by simp
    ultimately show ?thesis using that eq by blast
  qed
  have beh: "behavioral_score ?r = Num 75" and con: "contextual_score ?r = Num 75"
    by (rule score_employee_final)+
  have f: "final_match_score ?r = Num (round2 (c * 0.50 + p * 0.25 + 18.75))"
    by (subst score_employee_final(3)) (simp add: beh con c(1) p(1) algebra_simps)
  have "18.75 \<le> c * 0.50 + p * 0.25 + 18.75" using c(2) p(2) by simp
  then have lo: "18.75 \<le> round2 (c * 0.50 + p * 0.25 + 18.75)"
    using round2_lower [of 1875 "c * 0.50 + p * 0.25 + 18.75"] by simp
  have "c * 0.50 + p * 0.25 + 18.75 \<le> 93.75" using c(3) p(3) by simp
  then have hi: "round2 (c * 0.50 + p * 0.25 + 18.75) \<le> 93.75"
    using round2_upper [of "c * 0.50 + p * 0.25 + 18.75" 9375] by simp
  from c p beh con f lo hi show ?thesis by blast
qed

section \<open>An undefined competency score\<close>

text \<open>
  The run of \<^verbatim>\<open>main\<close> on the company with the benchmark employees \<open>e1\<close> and \<open>e2\<close>: the
  builder returns the example baseline, the scorer ranks the five employees of the roster.
  The final scores of \<open>e1\<close>, \<open>e2\<close>, \<open>e3\<close> and \<open>e4\<close> are numbers; the scores of \<open>e6\<close>, whose
  record for P1 holds no score, are NaN, and his row is the last one.
\<close>

lemma company_defined_final:
  assumes "e \<in> {''e1'', ''e2'', ''e3'', ''e4''}"
  shows "\<not> isna (final_match_score
                   (score_employee example_baseline (competencies_yearly company_db)
                      (profiles_psych company_db) e))"
proof -
  have comp: "\<forall>row \<in> set (competencies example_baseline). std_defined_nonneg (snd (snd row))"
    and psy: "\<forall>row \<in> set (psychometric example_baseline). std_defined_nonneg (snd (snd row))"
    by (simp_all add: example_baseline_def std_defined_nonneg_def)
  have "\<forall>c \<in> set (competencies_yearly company_db). comp_employee_id c = e \<longrightarrow> \<not> isna (score c)"
    using assms by (auto simp: company_db_def isna_def)
  from scores_in_range [OF comp psy this, of "profiles_psych company_db"]
  obtain f where "final_match_score
                    (score_employee example_baseline (competencies_yearly company_db)
                       (profiles_psych company_db) e) = Num f"
    by blast
  then show ?thesis by (simp add: isna_def)
qed

lemma company_undefined_row:
  "employee_id (score_employee example_baseline (competencies_yearly company_db)
                  (profiles_psych company_db) ''e6'') = ''e6''"
  "competency_score (score_employee example_baseline (competencies_yearly company_db)
                       (profiles_psych company_db) ''e6'') = NaN"
  "final_match_score (score_employee example_baseline (competencies_yearly company_db)
                        (profiles_psych company_db) ''e6'') = NaN"
  by (simp_all add: score_employee_def company_db_def example_baseline_def Let_def
      tv_match_single match_value_def isna_def np_mean_def py_sum_def)

lemma company_ranking:
  "returned_frame (main_analysis sort_values_stable (Some company_db) [''e1'', ''e2'']) =
     sort_key (\<lambda>r. - num_of (final_match_score r))
       (map (score_employee example_baseline (competencies_yearly company_db)
               (profiles_psych company_db)) [''e1'', ''e2'', ''e3'', ''e4''])
     @ [score_employee example_baseline (competencies_yearly company_db)
          (profiles_psych company_db) ''e6'']"
proof -
  let ?score = "score_employee example_baseline (competencies_yearly company_db)
                  (profiles_psych company_db)"
  have r: "[p \<leftarrow> performance_yearly company_db. perf_year p = 2025] \<noteq> []"
    by (simp add: company_db_def)
  have c: "[c \<leftarrow> competencies_yearly company_db. comp_year c = 2025] \<noteq> []"
    by (simp add: company_competency_frame)
  have run: "main_analysis sort_values_stable (Some company_db) [''e1'', ''e2''] =
          Inr (sort_values_stable final_match_score False
                 (map ?score [''e1'', ''e2'', ''e3'', ''e4''] @ [?score ''e6'']))"
    unfolding company_main scorer_success [OF r c] company_roster company_competency_frame(1)
    by simp
  have nums: "\<forall>r \<in> set (map ?score [''e1'', ''e2'', ''e3'', ''e4'']). \<not> isna (final_match_score r)"
    using company_defined_final by auto
  have und: "isna (final_match_score (?score ''e6''))"
    by (simp add: company_undefined_row isna_def)
  show ?thesis
    unfolding run returned_frame.simps
    by (rule sort_values_stable_undefined_last [OF nums und])
qed

lemma company_ranking_rows:
  "length (returned_frame (main_analysis sort_values_stable (Some company_db) [''e1'', ''e2''])) = 5"
  "returned_frame (main_analysis sort_values_stable (Some company_db) [''e1'', ''e2'']) ! 4 =
     score_employee example_baseline (competencies_yearly company_db)
       (profiles_psych company_db) ''e6''"
  "\<not> isna (final_match_score
             (returned_frame (main_analysis sort_values_stable (Some company_db) [''e1'', ''e2''])
                ! 3))"
proof -
  let ?score = "score_employee example_baseline (competencies_yearly company_db)
                  (profiles_psych company_db)"
  let ?nums = "sort_key (\<lambda>r. - num_of (final_match_score r))
                 (map ?score [''e1'', ''e2'', ''e3'', ''e4''])"
  have len: "length ?nums = 4" by simp
  show "length (returned_frame (main_analysis sort_values_stable (Some company_db)
                  [''e1'', ''e2''])) = 5"
    unfolding company_ranking by simp
  show "returned_frame (main_analysis sort_values_stable (Some company_db) [''e1'', ''e2'']) ! 4 =
          ?score ''e6''"
    unfolding company_ranking using len by (simp add: nth_append)
  have "?nums ! 3 \<in> set ?nums" using len by (intro nth_mem) simp
  then have "?nums ! 3 \<in> set (map ?score [''e1'', ''e2'', ''e3'', ''e4''])"
    by (simp only: set_sort)
  then have "\<not> isna (final_match_score (?nums ! 3))"
    using company_defined_final by auto
  moreover have "returned_frame (main_analysis sort_values_stable (Some company_db)
                   [''e1'', ''e2'']) ! 3 = ?nums ! 3"
    unfolding company_ranking using len by (simp add: nth_append)
  ultimately show "\<not> isna (final_match_score
             (returned_frame (main_analysis sort_values_stable (Some company_db) [''e1'', ''e2''])
                ! 3))"
    by simp
qed

lemma each_at_least_next_nth:
  "each_at_least_next xs \<Longrightarrow> Suc i < length xs \<Longrightarrow> np_ge (xs ! i) (xs ! Suc i)"
proof (induction xs arbitrary: i rule: each_at_least_next.induct)
  case (1 a b rest)
  then show ?case by (cases i) simp_all
qed simp_all

text \<open>
  C5, at the failing input. In the run of \<^verbatim>\<open>main\<close> on the company, employee \<open>e6\<close> has no
  score for the only baseline pillar P1 (his record holds null), so no baseline pillar
  matches and the specification gives him the competency score 0. The competency loop
  asks only whether a record exists, passes the undefined score to the transform, and the
  competency score of his row is NaN.
\<close>

theorem competency_score_of_null_record:
  "employee_id
     (returned_frame (main_analysis sort_values_stable (Some company_db) [''e1'', ''e2'']) ! 4)
     = ''e6''
   \<and> employee_pillar_score (competencies_yearly company_db) ''e6'' ''P1'' = None
   \<and> pillar_matches example_baseline (competencies_yearly company_db) ''e6'' = []
   \<and> spec_competency_score example_baseline (competencies_yearly company_db) ''e6'' = Num 0
   \<and> competency_score
       (returned_frame (main_analysis sort_values_stable (Some company_db) [''e1'', ''e2'']) ! 4)
     = NaN"
proof -
  have none: "employee_pillar_score (competencies_yearly company_db) ''e6'' ''P1'' = None"
    by (simp add: employee_pillar_score_def company_db_def isna_def)
  then have nil: "pillar_matches example_baseline (competencies_yearly company_db) ''e6'' = []"
    by (simp add: pillar_matches_def example_baseline_def map_filter_simps)
  then have zero: "spec_competency_score example_baseline (competencies_yearly company_db) ''e6''
                     = Num 0"
    by (simp add: spec_competency_score_def)
  from none nil zero show ?thesis
    unfolding company_ranking_rows(2) company_undefined_row by (intro conjI refl)
qed

text \<open>
  C8, at the failing input. In the run of \<^verbatim>\<open>main\<close> on the company the ranking has five
  rows; the last row is the one of \<open>e6\<close> with the final score NaN, the row before it has a
  defined final score, and a number is not \<open>\<ge>\<close> NaN: the ranking is not one in which every
  row's final score is at least the next row's.
\<close>

theorem ranking_with_undefined_score:
  "length (returned_frame (main_analysis sort_values_stable (Some company_db) [''e1'', ''e2''])) = 5
   \<and> employee_id
       (returned_frame (main_analysis sort_values_stable (Some company_db) [''e1'', ''e2'']) ! 4)
     = ''e6''
   \<and> final_match_score
       (returned_frame (main_analysis sort_values_stable (Some company_db) [''e1'', ''e2'']) ! 4)
     = NaN
   \<and> \<not> isna (final_match_score
               (returned_frame (main_analysis sort_values_stable (Some company_db)
                  [''e1'', ''e2'']) ! 3))
   \<and> \<not> each_at_least_next
         (map final_match_score
            (returned_frame (main_analysis sort_values_stable (Some company_db)
               [''e1'', ''e2''])))"
proof -
  let ?rows = "returned_frame (main_analysis sort_values_stable (Some company_db) [''e1'', ''e2''])"
  have len: "length ?rows = 5" by (rule company_ranking_rows(1))
  have id: "employee_id (?rows ! 4) = ''e6''"
    and nan: "final_match_score (?rows ! 4) = NaN"
    unfolding company_ranking_rows(2) by (rule company_undefined_row)+
  have num: "\<not> isna (final_match_score (?rows ! 3))" by (rule company_ranking_rows(3))
  have "\<not> each_at_least_next (map final_match_score ?rows)"
  proof
    assume "each_at_least_next (map final_match_score ?rows)"
    from each_at_least_next_nth [OF this, of 3] len
    have "np_ge (final_match_score (?rows ! 3)) (final_match_score (?rows ! 4))"
      by simp
    with nan show False by (cases "final_match_score (?rows ! 3)") simp_all
  qed
  with len id nan num show ?thesis by (intro conjI)
qed

lemma null_score_scores:
  "map (score_employee example_baseline
          [c \<leftarrow> competencies_yearly null_score_db. comp_year c = 2025]
          (profiles_psych null_score_db)) [''e3'', ''e6'']
   = null_score_ranking"
  by (simp add: score_employee_def null_score_db_def example_baseline_def null_score_ranking_def
      Let_def tv_match_single match_value_def isna_def np_mean_def py_sum_def round2_values)

text \<open>
  C10, at the failing input. Employee \<open>e6\<close> has a competency row for the baseline pillar P1
  whose score is null. The competency loop passes the undefined score to the transform
  (the psychometric loop skips an undefined value), the match, the mean and the final
  score are NaN, and the row is ranked last: its competency and final scores are in no
  interval.
\<close>

theorem undefined_competency_score_propagates:
  "compute_match_scores_optimized sort_values_stable example_baseline 2025 (Some null_score_db)
     = Inr null_score_ranking
   \<and> employee_id (null_score_ranking ! 1) = ''e6''
   \<and> competency_score (null_score_ranking ! 1) = NaN
   \<and> final_match_score (null_score_ranking ! 1) = NaN"
proof -
  have sorted: "sort_values_stable final_match_score False null_score_ranking = null_score_ranking"
    by (simp add: sort_values_stable_def null_score_ranking_def isna_def)
  have roster: "map perf_employee_id [p \<leftarrow> performance_yearly null_score_db. perf_year p = 2025]
      = [''e3'', ''e6'']"
    by (simp add: null_score_db_def)
  have r: "[p \<leftarrow> performance_yearly null_score_db. perf_year p = 2025] \<noteq> []"
    by (simp add: null_score_db_def)
  have c: "[c \<leftarrow> competencies_yearly null_score_db. comp_year c = 2025] \<noteq> []"
    by (simp add: null_score_db_def)
  have run: "compute_match_scores_optimized sort_values_stable example_baseline 2025
               (Some null_score_db) = Inr null_score_ranking"
    unfolding scorer_success [OF r c] roster null_score_scores sorted ..
  then show ?thesis by (simp add: null_score_ranking_def)
qed

end
